theory Spec2Isabelle
  imports Complex_Main "HOL-Library.Word"
begin

section \<open>JavaScript strings and numbers\<close>

text \<open>
  The provider is TypeScript. A string of the program is modelled as a \<^typ>\<open>string\<close>
  whose characters are the code units of the JavaScript string; the model covers the
  strings whose code units lie in the range 0..255, which is what \<^typ>\<open>char\<close> holds.
  \<open>length\<close> is then the \<open>.length\<close> of the source. HTTP status codes and clock
  values are natural numbers. The size of a file is a byte count that a JavaScript
  number holds exactly, a non-negative integer up to \<open>Number.MAX_SAFE_INTEGER\<close>, which
  is \<open>2^53 - 1\<close>: it is modelled as a 53-bit word, read with \<open>unat\<close>; the program does
  no arithmetic on it but one division.
\<close>

text \<open>
  \<open>String.prototype.trim\<close> removes white space and line terminators from both ends.
  Below code unit 256 these are TAB, LF, VT, FF, CR, SPACE and NBSP.
\<close>

definition is_ws :: "char \<Rightarrow> bool" where
  "is_ws c = ((of_char c :: nat) \<in> {9, 10, 11, 12, 13, 32, 160})"

definition trim :: "string \<Rightarrow> string" where
  "trim s = rev (dropWhile is_ws (rev (dropWhile is_ws s)))"

text \<open>
  \<open>String.prototype.toLowerCase\<close>: below code unit 256 the letters with a lower-case
  partner are A..Z and the Latin-1 capitals 0xC0..0xDE without the multiplication sign
  0xD7; the partner lies 32 above, which is bit 5 set.
\<close>

definition is_upper :: "char \<Rightarrow> bool" where
  "is_upper c =
     (let n = (of_char c :: nat)
      in (65 \<le> n \<and> n \<le> 90) \<or> (192 \<le> n \<and> n \<le> 222 \<and> n \<noteq> 215))"

definition lower_char :: "char \<Rightarrow> char" where
  "lower_char c =
     (if is_upper c
      then (case c of Char b0 b1 b2 b3 b4 b5 b6 b7 \<Rightarrow> Char b0 b1 b2 b3 b4 True b6 b7)
      else c)"

definition toLowerCase :: "string \<Rightarrow> string" where
  "toLowerCase s = map lower_char s"

text \<open>\<open>s.split('.')\<close>: the segments between the dots; never the empty array.\<close>

fun split_dot :: "string \<Rightarrow> string list" where
  "split_dot [] = [[]]"
| "split_dot (c # cs) =
     (if c = CHR ''.'' then [] # split_dot cs
      else (case split_dot cs of
              [] \<Rightarrow> [[c]]
            | seg # segs \<Rightarrow> (c # seg) # segs))"

text \<open>\<open>s.startsWith(p)\<close> and \<open>s.includes(p)\<close>.\<close>

fun startsWith :: "string \<Rightarrow> string \<Rightarrow> bool" where
  "startsWith s [] = True"
| "startsWith [] (p # ps) = False"
| "startsWith (c # cs) (p # ps) = (c = p \<and> startsWith cs ps)"

fun includes_str :: "string \<Rightarrow> string \<Rightarrow> bool" where
  "includes_str [] p = (p = [])"
| "includes_str (c # cs) p = (startsWith (c # cs) p \<or> includes_str cs p)"

text \<open>\<open>xs.join(sep)\<close> on an array of strings.\<close>

fun join :: "string \<Rightarrow> string list \<Rightarrow> string" where
  "join sep [] = []"
| "join sep [x] = x"
| "join sep (x # y # ys) = x @ sep @ join sep (y # ys)"

text \<open>The decimal rendering of a non-negative integer inside a template literal.\<close>

fun show_nat :: "nat \<Rightarrow> string" where
  "show_nat n =
     (if n < 10 then [''0123456789'' ! n]
      else show_nat (n div 10) @ [''0123456789'' ! (n mod 10)])"

declare show_nat.simps [simp del]

text \<open>
  \<open>x.toFixed(1)\<close>. For \<open>0 \<le> x < 10^21\<close> it is the integer \<open>n\<close> with \<open>n / 10\<close> nearest
  to \<open>x\<close>, the larger one on a tie, printed with one decimal. From \<open>10^21\<close> on
  JavaScript prints the number in exponent notation instead, and below zero with a
  sign; the model gives no rendering there (\<open>undefined\<close>). The only number the
  program prints this way is a byte count divided by \<open>1024 * 1024\<close>, which is exact in
  double arithmetic (a division of an integer by a power of two), so the quotient is
  modelled as the rational it is, and which lies below \<open>2^33\<close>, so the plain rendering
  is the one that applies (lemma \<open>fileSizeMB_range\<close>).
\<close>

definition toFixed1 :: "rat \<Rightarrow> string" where
  "toFixed1 x =
     (if 0 \<le> x \<and> x < 10 ^ 21
      then (let n = nat \<lfloor>x * 10 + 1 / 2\<rfloor>
            in show_nat (n div 10) @ ''.'' @ show_nat (n mod 10))
      else undefined)"

text \<open>The double quote, which a string literal of the theory cannot hold.\<close>

definition dquote :: string where
  "dquote = [CHR 0x22]"

text \<open>The truthiness of a value that is a string, \<open>null\<close> or \<open>undefined\<close>.\<close>

fun truthy :: "string option \<Rightarrow> bool" where
  "truthy None = False"
| "truthy (Some s) = (s \<noteq> [])"

section \<open>Configuration\<close>

text \<open>\<open>DECART_CONFIG\<close>.\<close>

definition config_id :: string where
  "config_id = ''decart-video''"

definition endpoint :: string where
  "endpoint = ''https://api.decart.ai/v1/generate/lucy-pro-v2v''"

definition timeout :: nat where
  "timeout = 300000"

definition maxFileSizeMB :: nat where
  "maxFileSizeMB = 100"

definition maxPromptLength :: nat where
  "maxPromptLength = 1000"

definition supportedFormats :: "string list" where
  "supportedFormats = [''mp4'', ''avi'', ''mov'', ''mkv'', ''webm'']"

text \<open>
  What reading \<open>.width\<close> and \<open>.height\<close> of a value gives: a number, or \<open>undefined\<close>
  (\<open>None\<close>).
\<close>

record dimensions =
  width :: "nat option"
  height :: "nat option"

definition orientations :: "(string \<times> dimensions) list" where
  "orientations =
     [(''landscape'', \<lparr>width = Some 1280, height = Some 704\<rparr>),
      (''portrait'', \<lparr>width = Some 704, height = Some 1280\<rparr>)]"

section \<open>Requests and results\<close>

record file_ref =
  path :: string
  signedUrl :: "string option"
  mime :: string
  size_bytes :: "53 word"
  originalName :: string

text \<open>The fields \<open>DecartVideoInput\<close> and \<open>DecartBatchInput\<close> share.\<close>

record request_common =
  modelCode :: string
  orientation :: string
  enhance_prompt :: "bool option"

text \<open>
  \<open>DecartVideoInput\<close>. The validator reads \<open>input.file?.signedUrl\<close>, so the file may be
  absent. The field \<open>file\<close> is \<open>input_file\<close> here.
\<close>

record video_input = request_common +
  prompt :: string
  input_file :: "file_ref option"

record csv_file =
  csv_path :: string
  csv_signedUrl :: "string option"
  csv_mime :: string
  csv_size :: "53 word"
  prompts :: "string list option"

text \<open>
  \<open>DecartBatchInput\<close>. The validator reads \<open>input.csvFile?.prompts\<close> and tests
  \<open>Array.isArray\<close>, so both the CSV file and its prompt array may be absent.
\<close>

record batch_input = request_common +
  videoFile :: "file_ref option"
  csvFile :: "csv_file option"

text \<open>The \<open>type\<close> tag of a request selects the constructor.\<close>

datatype request = VideoToVideo video_input | BatchVideoProcessing batch_input

text \<open>The validators' result \<open>{ valid: boolean; error?: string }\<close>.\<close>

record validation =
  valid :: bool
  error :: "string option"

definition accept :: validation where
  "accept = \<lparr>valid = True, error = None\<rparr>"

definition reject :: "string \<Rightarrow> validation" where
  "reject msg = \<lparr>valid = False, error = Some msg\<rparr>"

section \<open>Validation\<close>

definition fileSizeMB :: "file_ref \<Rightarrow> rat" where
  "fileSizeMB f = of_nat (unat (size_bytes f)) / (1024 * 1024)"

definition fileExtension :: "file_ref \<Rightarrow> string" where
  "fileExtension f = toLowerCase (last (split_dot (originalName f)))"

definition validateVideoInput :: "video_input \<Rightarrow> validation" where
  "validateVideoInput input =
     (if modelCode input \<noteq> ''DecartVideo''
      then reject (''Invalid model code: '' @ modelCode input @ ''. Expected: DecartVideo'')
      else
        (case input_file input of
           None \<Rightarrow> reject ''Video file with signed URL required''
         | Some f \<Rightarrow>
             if \<not> truthy (signedUrl f) then reject ''Video file with signed URL required''
             else if fileSizeMB f > of_nat maxFileSizeMB
             then reject (''File too large ('' @ toFixed1 (fileSizeMB f) @ ''MB max ''
                          @ show_nat maxFileSizeMB @ ''MB)'')
             else if fileExtension f = [] \<or> fileExtension f \<notin> set supportedFormats
             then reject (''Unsupported file type: '' @ fileExtension f @ ''. Allowed: ''
                          @ join '', '' supportedFormats)
             else if prompt input = [] \<or> length (trim (prompt input)) = 0
             then reject ''Prompt is required for video transformation''
             else if length (prompt input) > maxPromptLength
             then reject (''Prompt too long (max '' @ show_nat maxPromptLength @ '' chars)'')
             else if orientation input \<notin> set [''landscape'', ''portrait'']
             then reject (''Orientation must be either '' @ dquote @ ''landscape'' @ dquote
                          @ '' or '' @ dquote @ ''portrait'' @ dquote)
             else accept))"

text \<open>The loop of \<open>validateBatchInput\<close> over the prompts, from index \<open>i\<close> on.\<close>

fun validatePrompts :: "nat \<Rightarrow> string list \<Rightarrow> validation" where
  "validatePrompts i [] = accept"
| "validatePrompts i (p # ps) =
     (if p = [] \<or> length (trim p) = 0
      then reject (''Empty prompt found at row '' @ show_nat (i + 1))
      else if length p > maxPromptLength
      then reject (''Prompt at row '' @ show_nat (i + 1) @ '' too long (max ''
                   @ show_nat maxPromptLength @ '' chars)'')
      else validatePrompts (i + 1) ps)"

definition validateBatchInput :: "batch_input \<Rightarrow> validation" where
  "validateBatchInput input =
     (let videoValidation = validateVideoInput
            \<lparr>modelCode = modelCode input, orientation = orientation input,
             enhance_prompt = None, prompt = ''dummy'', input_file = videoFile input\<rparr>
      in if \<not> valid videoValidation then videoValidation
         else
           (case Option.bind (csvFile input) prompts of
              None \<Rightarrow> reject ''CSV file with prompts required''
            | Some ps \<Rightarrow>
                if length ps = 0 then reject ''CSV file must contain at least one prompt''
                else validatePrompts 0 ps))"

section \<open>The environment\<close>

text \<open>
  A thrown value: an \<open>Error\<close> with its \<open>name\<close> and \<open>message\<close>, or a value that is
  not an instance of \<open>Error\<close>. A rejected promise carries one.
\<close>

datatype js_exn = JsError string string | NonError

definition new_Error :: "string \<Rightarrow> js_exn" where
  "new_Error msg = JsError ''Error'' msg"

text \<open>
  Reading a property of \<open>undefined\<close> throws a \<open>TypeError\<close>; the message is V8's.
\<close>

definition TypeError_undefined :: "string \<Rightarrow> js_exn" where
  "TypeError_undefined prop =
     JsError ''TypeError''
       (''Cannot read properties of undefined (reading '' @ [CHR 0x27] @ prop
        @ [CHR 0x27] @ '')'')"

text \<open>
  An HTTP response: its status code, and what reading its body (\<open>text()\<close> or
  \<open>blob()\<close>) gives, the content or a rejection.
\<close>

record http_response =
  status :: nat
  body :: "js_exn + string"

definition ok :: "http_response \<Rightarrow> bool" where
  "ok r = (200 \<le> status r \<and> status r \<le> 299)"

datatype fetch_reply = Rejects js_exn | Responds http_response

text \<open>
  The two calls of \<open>fetch\<close> the program makes: \<open>fetch(url)\<close> of the video reference,
  and the POST to the endpoint with the \<open>X-API-KEY\<close> header, the \<open>data\<close> field and the
  \<open>prompt\<close> field. The abort signal of the POST shows as a reply that rejects.
\<close>

datatype fetch_request =
    Get "string option"
  | Post string "string option" string string

text \<open>
  The world the provider runs in: the credential in \<open>process.env\<close>; the network, as
  the reply to the \<open>n\<close>-th call of \<open>fetch\<close>, with the log of the calls made so far; the
  clock, as the value of the \<open>n\<close>-th \<open>Date.now()\<close>; and the random source, as the
  base-36 rendering of the \<open>n\<close>-th \<open>Math.random()\<close>. Logging is left out.
\<close>

record world =
  DECART_API_KEY :: "string option"
  network :: "nat \<Rightarrow> fetch_reply"
  fetched :: "fetch_request list"
  clock :: "nat \<Rightarrow> nat"
  clock_reads :: nat
  random36 :: "nat \<Rightarrow> string"
  random_reads :: nat

definition fetch :: "fetch_request \<Rightarrow> world \<Rightarrow> fetch_reply \<times> world" where
  "fetch req w = (network w (length (fetched w)), w\<lparr>fetched := fetched w @ [req]\<rparr>)"

definition Date_now :: "world \<Rightarrow> nat \<times> world" where
  "Date_now w = (clock w (clock_reads w), w\<lparr>clock_reads := Suc (clock_reads w)\<rparr>)"

definition Math_random_toString36 :: "world \<Rightarrow> string \<times> world" where
  "Math_random_toString36 w =
     (random36 w (random_reads w), w\<lparr>random_reads := Suc (random_reads w)\<rparr>)"

text \<open>\<open>s.substring(a, b)\<close> for \<open>a \<le> b\<close>.\<close>

definition substring :: "nat \<Rightarrow> nat \<Rightarrow> string \<Rightarrow> string" where
  "substring a b s = take (b - a) (drop a s)"

definition isConfigured :: "world \<Rightarrow> bool" where
  "isConfigured w = truthy (DECART_API_KEY w)"

section \<open>Utility functions\<close>

text \<open>
  The names every object inherits from \<open>Object.prototype\<close>. Each is bound to a
  function, or for \<open>__proto__\<close> to the prototype object: a truthy value with neither a
  \<open>width\<close> nor a \<open>height\<close>.
\<close>

definition object_prototype_names :: "string list" where
  "object_prototype_names =
     [''constructor'', ''hasOwnProperty'', ''isPrototypeOf'', ''propertyIsEnumerable'',
      ''toLocaleString'', ''toString'', ''valueOf'', ''__proto__'', ''__defineGetter__'',
      ''__defineSetter__'', ''__lookupGetter__'', ''__lookupSetter__'']"

text \<open>
  \<open>orientations[orientation] || orientations.landscape\<close>, as the \<open>width\<close> and
  \<open>height\<close> read from the value: the lookup finds an own property, else an inherited
  one, else \<open>undefined\<close>, and only \<open>undefined\<close> is falsy.
\<close>

definition getOutputDimensions :: "string \<Rightarrow> dimensions" where
  "getOutputDimensions orientation' =
     (case map_of orientations orientation' of
        Some d \<Rightarrow> d
      | None \<Rightarrow>
          if orientation' \<in> set object_prototype_names
          then \<lparr>width = None, height = None\<rparr>
          else the (map_of orientations ''landscape''))"

definition generateSequentialFilename :: "world \<Rightarrow> string \<times> world" where
  "generateSequentialFilename w =
     (let (timestamp, w1) = Date_now w;
          (r, w2) = Math_random_toString36 w1
      in (''output_'' @ show_nat timestamp @ ''_'' @ substring 2 5 r @ ''.mp4'', w2))"

section \<open>The provider\<close>

record video_output =
  url :: string
  format :: string
  out_width :: "nat option"
  out_height :: "nat option"
  provider :: string
  model :: string
  out_prompt :: string
  out_orientation :: string
  outputFile :: string

text \<open>An entry of \<open>DecartBatchOutput['results']\<close>.\<close>

record batch_result =
  item_prompt :: string
  success :: bool
  videoUrl :: "string option"
  item_outputFile :: "string option"
  item_error :: "string option"

record batch_output =
  totalProcessed :: nat
  successCount :: nat
  failureCount :: nat
  results :: "batch_result list"

datatype provider_output = Video video_output | BatchResults batch_output

text \<open>\<open>ProviderRunResult\<close> and \<open>ProviderStatusResult\<close>.\<close>

datatype run_result = Deferred string

datatype status_result = Running | Succeeded provider_output | Failed string

text \<open>
  An \<open>async\<close> method returns its value (\<open>Inr\<close>) or rejects (\<open>Inl\<close>), and leaves the
  world changed.
\<close>

definition run :: "request \<Rightarrow> world \<Rightarrow> (js_exn + run_result) \<times> world" where
  "run input w =
     (if \<not> isConfigured w
      then (Inl (new_Error ''Decart not configured - missing DECART_API_KEY''), w)
      else
        (case input of
           BatchVideoProcessing b \<Rightarrow>
             (let validation = validateBatchInput b
              in if \<not> valid validation
                 then (Inl (new_Error (case error validation of None \<Rightarrow> [] | Some e \<Rightarrow> e)), w)
                 else
                   (let (now, w1) = Date_now w;
                        (r, w2) = Math_random_toString36 w1
                    in (Inr (Deferred (''decart_batch_'' @ show_nat now @ ''_''
                                       @ substring 2 9 r)), w2)))
         | VideoToVideo v \<Rightarrow>
             (let validation = validateVideoInput v
              in if \<not> valid validation
                 then (Inl (new_Error (case error validation of None \<Rightarrow> [] | Some e \<Rightarrow> e)), w)
                 else
                   (let (now, w1) = Date_now w;
                        (r, w2) = Math_random_toString36 w1
                    in (Inr (Deferred (''decart_single_'' @ show_nat now @ ''_''
                                       @ substring 2 9 r)), w2)))))"

definition processSingleVideo ::
  "video_input \<Rightarrow> world \<Rightarrow> (js_exn + status_result) \<times> world" where
  "processSingleVideo input w =
     (let dimensions = getOutputDimensions (orientation input)
      in case input_file input of
           None \<Rightarrow> (Inl (TypeError_undefined ''signedUrl''), w)
         | Some f \<Rightarrow>
             (case fetch (Get (signedUrl f)) w of
                (Rejects e, w1) \<Rightarrow> (Inl e, w1)
              | (Responds videoResponse, w1) \<Rightarrow>
                  (case body videoResponse of
                     Inl e \<Rightarrow> (Inl e, w1)
                   | Inr videoBlob \<Rightarrow>
                       (case fetch (Post endpoint (DECART_API_KEY w1) videoBlob
                                      (prompt input)) w1 of
                          (Rejects e, w2) \<Rightarrow> (Inl e, w2)
                        | (Responds response, w2) \<Rightarrow>
                            if \<not> ok response
                            then
                              (case body response of
                                 Inl e \<Rightarrow> (Inl e, w2)
                               | Inr errorText \<Rightarrow>
                                   (Inl (new_Error
                                      (''Decart API error ('' @ show_nat (status response)
                                       @ ''): '' @ errorText)), w2))
                            else
                              (case body response of
                                 Inl e \<Rightarrow> (Inl e, w2)
                               | Inr processedVideoBlob \<Rightarrow>
                                   (let (outputFile', w3) = generateSequentialFilename w2;
                                        (now, w4) = Date_now w3
                                    in (Inr (Succeeded (Video
                                          \<lparr>url = ''/static/videos/processed_'' @ show_nat now
                                                 @ ''.mp4'',
                                           format = ''mp4'',
                                           out_width = width dimensions,
                                           out_height = height dimensions,
                                           provider = ''decart-video'',
                                           model = ''vid2vid'',
                                           out_prompt = prompt input,
                                           out_orientation = orientation input,
                                           outputFile = outputFile'\<rparr>)), w4)))))))"

text \<open>
  One iteration of the loop of \<open>processBatch\<close>, for the prompt \<open>p\<close> at index \<open>i\<close>: the
  entry it pushes.
\<close>

definition processBatch_item ::
  "string \<Rightarrow> nat \<Rightarrow> string \<Rightarrow> world \<Rightarrow> batch_result \<times> world" where
  "processBatch_item videoBlob i p w =
     (let prompt' = trim p
      in if prompt' = []
         then (\<lparr>item_prompt = prompt', success = False, videoUrl = None,
                item_outputFile = None, item_error = Some ''Empty prompt''\<rparr>, w)
         else
           (case fetch (Post endpoint (DECART_API_KEY w) videoBlob prompt') w of
              (Responds response, w1) \<Rightarrow>
                if ok response
                then
                  (let (outputFile', w2) = generateSequentialFilename w1;
                       (now, w3) = Date_now w2
                   in (\<lparr>item_prompt = prompt', success = True,
                        videoUrl = Some (''/static/videos/batch_'' @ show_nat now @ ''_''
                                         @ show_nat i @ ''.mp4''),
                        item_outputFile = Some outputFile', item_error = None\<rparr>, w3))
                else
                  (\<lparr>item_prompt = prompt', success = False, videoUrl = None,
                    item_outputFile = None,
                    item_error = Some (''API request failed: ''
                                       @ show_nat (status response))\<rparr>, w1)
            | (Rejects e, w1) \<Rightarrow>
                (\<lparr>item_prompt = prompt', success = False, videoUrl = None,
                  item_outputFile = None,
                  item_error = Some (case e of
                                       JsError name' message' \<Rightarrow> message'
                                     | NonError \<Rightarrow> ''Unknown error'')\<rparr>, w1)))"

text \<open>The loop, from index \<open>i\<close> on, over the prompts that remain.\<close>

fun processBatch_loop ::
  "string \<Rightarrow> nat \<Rightarrow> string list \<Rightarrow> batch_result list \<Rightarrow> world
   \<Rightarrow> batch_result list \<times> world" where
  "processBatch_loop videoBlob i [] results' w = (results', w)"
| "processBatch_loop videoBlob i (p # ps) results' w =
     (let (r, w1) = processBatch_item videoBlob i p w
      in processBatch_loop videoBlob (i + 1) ps (results' @ [r]) w1)"

definition processBatch ::
  "batch_input \<Rightarrow> world \<Rightarrow> (js_exn + status_result) \<times> world" where
  "processBatch input w =
     (let dimensions = getOutputDimensions (orientation input)
      in case videoFile input of
           None \<Rightarrow> (Inl (TypeError_undefined ''signedUrl''), w)
         | Some f \<Rightarrow>
             (case fetch (Get (signedUrl f)) w of
                (Rejects e, w1) \<Rightarrow> (Inl e, w1)
              | (Responds videoResponse, w1) \<Rightarrow>
                  (case body videoResponse of
                     Inl e \<Rightarrow> (Inl e, w1)
                   | Inr videoBlob \<Rightarrow>
                       (case csvFile input of
                          None \<Rightarrow> (Inl (TypeError_undefined ''prompts''), w1)
                        | Some c \<Rightarrow>
                            (case prompts c of
                               None \<Rightarrow> (Inl (TypeError_undefined ''length''), w1)
                             | Some ps \<Rightarrow>
                                 (let (results', w2) =
                                        processBatch_loop videoBlob 0 ps [] w1;
                                      successCount' = length (filter success results');
                                      failureCount' = length results' - successCount'
                                  in (Inr (Succeeded (BatchResults
                                        \<lparr>totalProcessed = length results',
                                         successCount = successCount',
                                         failureCount = failureCount',
                                         results = results'\<rparr>)), w2)))))))"

text \<open>The \<open>catch\<close> block of \<open>result\<close>.\<close>

definition on_error :: "js_exn \<Rightarrow> status_result" where
  "on_error e =
     (case e of
        JsError name' message' \<Rightarrow>
          if name' = ''AbortError''
          then Failed ''Video processing timed out. Please try again with a smaller video.''
          else Failed
                 (if includes_str message' ''timeout''
                  then ''Video processing is taking longer than expected. Please try again.''
                  else ''Video processing failed: '' @ message')
      | NonError \<Rightarrow> Failed ''Unknown error occurred during video processing'')"

definition result :: "string \<Rightarrow> request option \<Rightarrow> world \<Rightarrow> status_result \<times> world" where
  "result jobId input w =
     (if \<not> startsWith jobId ''decart_'' \<or> input = None then (Running, w)
      else
        (case (case the input of
                 BatchVideoProcessing b \<Rightarrow> processBatch b w
               | VideoToVideo v \<Rightarrow> processSingleVideo v w) of
           (Inr r, w1) \<Rightarrow> (r, w1)
         | (Inl e, w1) \<Rightarrow> (on_error e, w1)))"

section \<open>The validator's checks, as the specification lists them\<close>

text \<open>
  The definitions of this section follow the words of the specification, not the code:
  the seven checks of a single-video request in the order the specification gives
  them, what it means to pass each, and the first check a request fails. The message
  of a rejection is the one the code builds.
\<close>

text \<open>The extension of a file name: its last dot-segment.\<close>

definition last_dot_segment :: "string \<Rightarrow> string" where
  "last_dot_segment s = rev (takeWhile (\<lambda>c. c \<noteq> CHR ''.'') (rev s))"

datatype check =
  ModelTag | VideoReference | FileSize | Extension | PromptNonEmpty | PromptLength
  | Orientation

definition checks_in_order :: "check list" where
  "checks_in_order =
     [ModelTag, VideoReference, FileSize, Extension, PromptNonEmpty, PromptLength,
      Orientation]"

fun passes :: "check \<Rightarrow> video_input \<Rightarrow> bool" where
  "passes ModelTag input = (modelCode input = ''DecartVideo'')"
| "passes VideoReference input =
     (case input_file input of
        None \<Rightarrow> False
      | Some f \<Rightarrow> (case signedUrl f of None \<Rightarrow> False | Some u \<Rightarrow> u \<noteq> []))"
| "passes FileSize input =
     (case input_file input of
        None \<Rightarrow> True
      | Some f \<Rightarrow> unat (size_bytes f) \<le> 100 * (1024 * 1024))"
| "passes Extension input =
     (case input_file input of
        None \<Rightarrow> True
      | Some f \<Rightarrow>
          toLowerCase (last_dot_segment (originalName f))
            \<in> {''mp4'', ''avi'', ''mov'', ''mkv'', ''webm''})"
| "passes PromptNonEmpty input = (trim (prompt input) \<noteq> [])"
| "passes PromptLength input = (length (prompt input) \<le> 1000)"
| "passes Orientation input =
     (orientation input = ''landscape'' \<or> orientation input = ''portrait'')"

fun rejection :: "check \<Rightarrow> video_input \<Rightarrow> string" where
  "rejection ModelTag input =
     ''Invalid model code: '' @ modelCode input @ ''. Expected: DecartVideo''"
| "rejection VideoReference input = ''Video file with signed URL required''"
| "rejection FileSize input =
     ''File too large (''
     @ (case input_file input of None \<Rightarrow> [] | Some f \<Rightarrow> toFixed1 (fileSizeMB f))
     @ ''MB max 100MB)''"
| "rejection Extension input =
     ''Unsupported file type: ''
     @ (case input_file input of None \<Rightarrow> [] | Some f \<Rightarrow> fileExtension f)
     @ ''. Allowed: mp4, avi, mov, mkv, webm''"
| "rejection PromptNonEmpty input = ''Prompt is required for video transformation''"
| "rejection PromptLength input = ''Prompt too long (max 1000 chars)''"
| "rejection Orientation input =
     ''Orientation must be either '' @ dquote @ ''landscape'' @ dquote @ '' or ''
     @ dquote @ ''portrait'' @ dquote"

definition first_failure :: "video_input \<Rightarrow> check option" where
  "first_failure input = find (\<lambda>c. \<not> passes c input) checks_in_order"

section \<open>The outcome of an upstream call\<close>

text \<open>
  An upstream call succeeds when it is answered, and answered with a 2xx status: the
  case in which \<open>response.ok\<close> holds.
\<close>

definition reply_ok :: "fetch_reply \<Rightarrow> bool" where
  "reply_ok rep = (case rep of Responds r \<Rightarrow> ok r | Rejects e \<Rightarrow> False)"

section \<open>Example inputs\<close>

text \<open>
  The request of the specification's scenario: a 40 MB file \<open>clip.mov\<close>, portrait, with
  the prompt of the scenario.
\<close>

definition example_file :: file_ref where
  "example_file =
     \<lparr>path = ''uploads/clip.mov'', signedUrl = Some ''https://storage.example/clip.mov'',
      mime = ''video/quicktime'', size_bytes = 41943040, originalName = ''clip.mov''\<rparr>"

definition example_video_input :: video_input where
  "example_video_input =
     \<lparr>modelCode = ''DecartVideo'', orientation = ''portrait'', enhance_prompt = None,
      prompt = ''turn the person into a robot'', input_file = Some example_file\<rparr>"

text \<open>A batch request over the same video, with three prompts.\<close>

definition example_csv :: csv_file where
  "example_csv =
     \<lparr>csv_path = ''uploads/prompts.csv'',
      csv_signedUrl = Some ''https://storage.example/prompts.csv'',
      csv_mime = ''text/csv'', csv_size = 64,
      prompts = Some [''make it snow'', '' add rain '', ''at night'']\<rparr>"

definition example_batch_input :: batch_input where
  "example_batch_input =
     \<lparr>modelCode = ''DecartVideo'', orientation = ''landscape'', enhance_prompt = None,
      videoFile = Some example_file, csvFile = Some example_csv\<rparr>"

text \<open>
  A network that answers the calls of \<open>fetch\<close> with the replies of a list, in order, and
  fails every call after them; a reply with status 200 and one with status 500; and a
  world with the credential set, that network, a clock and a random source.
\<close>

definition replies :: "fetch_reply list \<Rightarrow> nat \<Rightarrow> fetch_reply" where
  "replies rs n =
     (if n < length rs then rs ! n else Rejects (JsError ''TypeError'' ''fetch failed''))"

definition ok_reply :: fetch_reply where
  "ok_reply = Responds \<lparr>status = 200, body = Inr ''video-bytes''\<rparr>"

definition error_reply :: fetch_reply where
  "error_reply = Responds \<lparr>status = 500, body = Inr ''boom''\<rparr>"

definition example_world :: "(nat \<Rightarrow> fetch_reply) \<Rightarrow> world" where
  "example_world net =
     \<lparr>DECART_API_KEY = Some ''secret'', network = net, fetched = [],
      clock = (\<lambda>n. 1000 + n), clock_reads = 0,
      random36 = (\<lambda>n. ''0.k3x9q2m7a1''), random_reads = 0\<rparr>"

section \<open>Strings\<close>

lemma split_dot_nonempty: "split_dot s \<noteq> []"
  by (induction s) (auto split: list.splits)

lemma split_dot_no_dot: "CHR ''.'' \<notin> set s \<Longrightarrow> split_dot s = [s]"
  by (induction s) auto

lemma split_dot_two: "2 \<le> length (split_dot (s @ CHR ''.'' # t))"
proof (induction s)
  case Nil
  show ?case using split_dot_nonempty[of t] by (cases "split_dot t") auto
next
  case (Cons a s)
  then show ?case by (auto split: list.splits)
qed

lemma split_dot_append:
  "CHR ''.'' \<notin> set t \<Longrightarrow> last (split_dot (s @ CHR ''.'' # t)) = t"
proof (induction s)
  case Nil
  then show ?case by (simp add: split_dot_no_dot)
next
  case (Cons a s)
  have "2 \<le> length (split_dot (s @ CHR ''.'' # t))"
    by (rule split_dot_two)
  then obtain x y ys where "split_dot (s @ CHR ''.'' # t) = x # y # ys"
    by (cases "split_dot (s @ CHR ''.'' # t)" rule: list.exhaust; simp; (cases "tl (split_dot (s @ CHR ''.'' # t))"; simp))
  then show ?case using Cons by auto
qed

lemma last_split_dot: "last (split_dot s) = last_dot_segment s"
proof (cases "CHR ''.'' \<in> set s")
  case False
  have tw: "takeWhile (\<lambda>c. c \<noteq> CHR ''.'') (rev s) = rev s"
    by (rule takeWhile_eq_all_conv[THEN iffD2]) (use False in auto)
  show ?thesis
    using False by (simp add: split_dot_no_dot last_dot_segment_def tw)
next
  case True
  then have "CHR ''.'' \<in> set (rev s)" by simp
  then obtain ys zs where rs: "rev s = ys @ CHR ''.'' # zs" and ys: "CHR ''.'' \<notin> set ys"
    by (meson split_list_first)
  from rs have s: "s = rev zs @ CHR ''.'' # rev ys"
    by (metis rev_rev_ident rev_append rev.simps(2) append_Cons append_Nil append_assoc)
  have "takeWhile (\<lambda>c. c \<noteq> CHR ''.'') (ys @ CHR ''.'' # zs) = ys"
    using ys by (subst takeWhile_append2) auto
  then have "takeWhile (\<lambda>c. c \<noteq> CHR ''.'') (rev s) = ys"
    by (simp only: rs)
  then show ?thesis using ys s
    by (simp add: last_dot_segment_def split_dot_append)
qed

lemma trim_Nil_iff: "(p = [] \<or> length (trim p) = 0) = (trim p = [])"
  by (auto simp: trim_def)

lemma show_nat_100: "show_nat 100 = ''100''"
  by (simp add: show_nat.simps)

lemma show_nat_1000: "show_nat 1000 = ''1000''"
  by (simp add: show_nat.simps)

lemma join_formats: "join '', '' supportedFormats = ''mp4, avi, mov, mkv, webm''"
  by (simp add: supportedFormats_def)

lemmas string_eval = trim_def is_ws_def toLowerCase_def lower_char_def is_upper_def
  last_dot_segment_def

section \<open>The validator\<close>

lemma fileSizeMB_gt:
  "(fileSizeMB f > of_nat maxFileSizeMB) = (104857600 < unat (size_bytes f))"
proof -
  have "(of_nat (unat (size_bytes f)) / (1024 * 1024) > (100::rat))
          = (of_nat (unat (size_bytes f)) > (of_nat 104857600 :: rat))"
    by (simp add: field_simps)
  also have "\<dots> = (104857600 < unat (size_bytes f))"
    by (simp only: of_nat_less_iff)
  finally show ?thesis by (simp add: fileSizeMB_def maxFileSizeMB_def)
qed

lemma fileSizeMB_le:
  "(fileSizeMB f > of_nat maxFileSizeMB) = (\<not> unat (size_bytes f) \<le> 100 * (1024 * 1024))"
  using fileSizeMB_gt[of f] by auto

text \<open>
  The size in MB of a file lies in the range where \<open>toFixed(1)\<close> prints a plain
  numeral: it is below \<open>2^33\<close>.
\<close>

lemma fileSizeMB_range: "0 \<le> fileSizeMB f \<and> fileSizeMB f < 2 ^ 33 \<and> fileSizeMB f < 10 ^ 21"
proof -
  have "unat (size_bytes f) < 2 ^ 53"
    using unsigned_less[of "size_bytes f"] by simp
  then have "(of_nat (unat (size_bytes f)) :: rat) < of_nat (2 ^ 53)"
    by (simp only: of_nat_less_iff)
  then have "fileSizeMB f < 2 ^ 33"
    by (simp add: fileSizeMB_def field_simps)
  moreover have "(2::rat) ^ 33 < 10 ^ 21"
    by simp
  moreover have "0 \<le> fileSizeMB f"
    unfolding fileSizeMB_def by (intro divide_nonneg_pos of_nat_0_le_iff) simp
  ultimately show ?thesis
    by simp
qed

text \<open>The size printed by \<open>toFixed(1)\<close>, in integer arithmetic on the byte count.\<close>

lemma toFixed1_fileSizeMB:
  "toFixed1 (fileSizeMB f) =
     show_nat ((20 * unat (size_bytes f) + 1048576) div 2097152 div 10) @ ''.''
     @ show_nat ((20 * unat (size_bytes f) + 1048576) div 2097152 mod 10)"
proof -
  have "fileSizeMB f * 10 + 1 / 2
          = (of_nat (20 * unat (size_bytes f) + 1048576) :: rat) / of_nat 2097152"
    by (simp add: fileSizeMB_def field_simps)
  then have "\<lfloor>fileSizeMB f * 10 + 1 / 2\<rfloor>
          = int ((20 * unat (size_bytes f) + 1048576) div 2097152)"
    by (simp only: floor_divide_of_nat_eq)
  then show ?thesis
    using fileSizeMB_range[of f] by (simp only: toFixed1_def Let_def nat_int if_True simp_thms)
qed

lemma passes_VideoReference:
  "passes VideoReference input =
     (\<exists>f. input_file input = Some f \<and> truthy (signedUrl f))"
  by (cases "input_file input"; simp; cases "signedUrl (the (input_file input))"; simp)

lemma passes_FileSize:
  "input_file input = Some f \<Longrightarrow>
   passes FileSize input = (\<not> fileSizeMB f > of_nat maxFileSizeMB)"
  by (simp add: fileSizeMB_le)

lemma passes_Extension:
  "input_file input = Some f \<Longrightarrow>
   passes Extension input =
     (\<not> (fileExtension f = [] \<or> fileExtension f \<notin> set supportedFormats))"
  by (auto simp: fileExtension_def supportedFormats_def last_split_dot)

lemma passes_PromptNonEmpty:
  "passes PromptNonEmpty input =
     (\<not> (prompt input = [] \<or> length (trim (prompt input)) = 0))"
  using trim_Nil_iff[of "prompt input"] by simp

lemma passes_PromptLength:
  "passes PromptLength input = (\<not> length (prompt input) > maxPromptLength)"
  by (auto simp: maxPromptLength_def)

lemma passes_Orientation:
  "passes Orientation input =
     (\<not> orientation input \<notin> set [''landscape'', ''portrait''])"
  by simp

lemma validateVideoInput_passes:
  "validateVideoInput input =
     (if \<not> passes ModelTag input then reject (rejection ModelTag input)
      else if \<not> passes VideoReference input then reject (rejection VideoReference input)
      else if \<not> passes FileSize input then reject (rejection FileSize input)
      else if \<not> passes Extension input then reject (rejection Extension input)
      else if \<not> passes PromptNonEmpty input then reject (rejection PromptNonEmpty input)
      else if \<not> passes PromptLength input then reject (rejection PromptLength input)
      else if \<not> passes Orientation input then reject (rejection Orientation input)
      else accept)"
proof (cases "\<exists>f. input_file input = Some f \<and> truthy (signedUrl f)")
  case False
  then have "\<not> passes VideoReference input"
    by (simp only: passes_VideoReference not_False_eq_True)
  moreover from False have "validateVideoInput input =
     (if modelCode input \<noteq> ''DecartVideo''
      then reject (''Invalid model code: '' @ modelCode input @ ''. Expected: DecartVideo'')
      else reject ''Video file with signed URL required'')"
    by (cases "input_file input") (simp_all add: validateVideoInput_def)
  ultimately show ?thesis by simp
next
  case True
  then obtain f where f: "input_file input = Some f" "truthy (signedUrl f)" by blast
  then have vr: "passes VideoReference input"
    by (auto simp only: passes_VideoReference)
  have msgs: "rejection FileSize input = ''File too large ('' @ toFixed1 (fileSizeMB f) @ ''MB max ''
                          @ show_nat maxFileSizeMB @ ''MB)''"
    "rejection Extension input = ''Unsupported file type: '' @ fileExtension f @ ''. Allowed: ''
                          @ join '', '' supportedFormats"
    "rejection PromptLength input = ''Prompt too long (max '' @ show_nat maxPromptLength @ '' chars)''"
    using f by (simp_all add: show_nat_100 show_nat_1000 join_formats maxFileSizeMB_def maxPromptLength_def)
  show ?thesis
    unfolding validateVideoInput_def msgs passes_FileSize[OF f(1)] passes_Extension[OF f(1)]
      passes_PromptNonEmpty passes_PromptLength passes_Orientation
    using f vr by simp
qed

lemma reject_eq: "(reject a = reject b) = (a = b)" "reject a \<noteq> accept" "accept \<noteq> reject a"
  by (simp_all add: reject_def accept_def)

text \<open>
  C5: the validator of a single-video request runs the seven checks in the order model
  tag, video reference, file size (at most 100 MB, the rejection embedding the size
  computed with one decimal), extension (one of mp4, avi, mov, mkv, webm, compared in
  lower case), prompt not empty after trimming, prompt of at most 1000 characters,
  orientation landscape or portrait; it accepts when all pass, and otherwise rejects
  with the message of the first check that fails, whatever the later checks would say.
\<close>

theorem validateVideoInput_first_failure:
  "validateVideoInput input =
     (case first_failure input of
        None \<Rightarrow> accept
      | Some c \<Rightarrow> reject (rejection c input))"
  unfolding validateVideoInput_passes first_failure_def checks_in_order_def
  by simp

text \<open>
  A request that fails the extension check, the prompt check and the orientation check
  is rejected for its extension; one of 150.5 MB that fails the size check, the
  extension check and the orientation check is rejected for its size, which the
  message holds.
\<close>

theorem validateVideoInput_first_failure_witness:
  "validateVideoInput
     (example_video_input\<lparr>orientation := ''diagonal'', prompt := ''   '',
        input_file := Some (example_file\<lparr>originalName := ''clip.txt''\<rparr>)\<rparr>)
   = reject ''Unsupported file type: txt. Allowed: mp4, avi, mov, mkv, webm'' \<and>
   validateVideoInput
     (example_video_input\<lparr>orientation := ''diagonal'',
        input_file := Some (example_file\<lparr>size_bytes := 157810688, originalName := ''clip.txt''\<rparr>)\<rparr>)
   = reject ''File too large (150.5MB max 100MB)''"
  using validateVideoInput_first_failure
    [of "example_video_input\<lparr>orientation := ''diagonal'', prompt := ''   '',
        input_file := Some (example_file\<lparr>originalName := ''clip.txt''\<rparr>)\<rparr>"]
   validateVideoInput_first_failure
    [of "example_video_input\<lparr>orientation := ''diagonal'',
        input_file := Some (example_file\<lparr>size_bytes := 157810688, originalName := ''clip.txt''\<rparr>)\<rparr>"]
  by (simp add: first_failure_def checks_in_order_def example_video_input_def
      example_file_def string_eval fileExtension_def toFixed1_fileSizeMB show_nat.simps)

text \<open>The messages of two different checks differ, so the message names the check.\<close>

lemma rejection_identifies: "rejection c input = rejection c' input \<Longrightarrow> c = c'"
  by (cases c; cases c'; simp)

text \<open>
  C10, as the claim states it, fails: a file named \<open>avi\<close> has no dot and is not
  \<open>mp4\<close>, and the validator accepts the request.
\<close>

theorem dotless_avi_accepted:
  "CHR ''.'' \<notin> set ''avi'' \<and> toLowerCase ''avi'' \<noteq> ''mp4'' \<and>
   validateVideoInput
     (example_video_input\<lparr>input_file := Some (example_file\<lparr>originalName := ''avi''\<rparr>)\<rparr>)
   = accept"
  by (simp add: validateVideoInput_passes example_video_input_def example_file_def string_eval)

text \<open>
  C10, amended: when the name of the file has no dot (and the checks before the
  extension check pass), the extension is the whole name in lower case, and the
  validator rejects the request as an unsupported file type exactly when that is none
  of mp4, avi, mov, mkv, webm.
\<close>

theorem dotless_name_extension_check:
  assumes "modelCode input = ''DecartVideo''"
    and "input_file input = Some f"
    and "truthy (signedUrl f)"
    and "unat (size_bytes f) \<le> 100 * (1024 * 1024)"
    and "CHR ''.'' \<notin> set (originalName f)"
  shows "fileExtension f = toLowerCase (originalName f) \<and>
     (validateVideoInput input =
        reject (''Unsupported file type: '' @ toLowerCase (originalName f)
                @ ''. Allowed: mp4, avi, mov, mkv, webm''))
     = (toLowerCase (originalName f) \<notin> {''mp4'', ''avi'', ''mov'', ''mkv'', ''webm''})"
proof -
  have ext: "fileExtension f = toLowerCase (originalName f)"
    using assms(5) by (simp add: fileExtension_def split_dot_no_dot)
  have p1: "passes ModelTag input" using assms(1) by simp
  have p2: "passes VideoReference input"
    using assms(2,3) by (simp only: passes_VideoReference) blast
  have p3: "passes FileSize input" using assms(2,4) by simp
  have p4: "passes Extension input =
      (toLowerCase (originalName f) \<in> {''mp4'', ''avi'', ''mov'', ''mkv'', ''webm''})"
    using assms(2) ext by (auto simp: passes_Extension supportedFormats_def simp del: passes.simps)
  have msg: "rejection Extension input = ''Unsupported file type: '' @ toLowerCase (originalName f)
                @ ''. Allowed: mp4, avi, mov, mkv, webm''"
    using assms(2) ext by simp
  show ?thesis
  proof (cases "passes Extension input")
    case False
    then have "validateVideoInput input = reject (rejection Extension input)"
      using p1 p2 p3 by (simp add: validateVideoInput_passes del: passes.simps)
    then show ?thesis using False ext p4 msg by simp
  next
    case True
    then have "validateVideoInput input =
       (if \<not> passes PromptNonEmpty input then reject (rejection PromptNonEmpty input)
        else if \<not> passes PromptLength input then reject (rejection PromptLength input)
        else if \<not> passes Orientation input then reject (rejection Orientation input)
        else accept)"
      using p1 p2 p3 by (simp add: validateVideoInput_passes del: passes.simps)
    then have "validateVideoInput input \<noteq> reject (''Unsupported file type: '' @ toLowerCase (originalName f)
                @ ''. Allowed: mp4, avi, mov, mkv, webm'')"
      by (simp add: reject_eq del: passes.simps)
    then show ?thesis using True ext p4 by simp
  qed
qed

text \<open>A file named \<open>MP4\<close> passes the extension check.\<close>

theorem dotless_name_extension_check_witness:
  "fileExtension (example_file\<lparr>originalName := ''MP4''\<rparr>) = ''mp4'' \<and>
   validateVideoInput
     (example_video_input\<lparr>input_file := Some (example_file\<lparr>originalName := ''MP4''\<rparr>)\<rparr>)
   \<noteq> reject ''Unsupported file type: mp4. Allowed: mp4, avi, mov, mkv, webm''"
  using dotless_name_extension_check
    [of "example_video_input\<lparr>input_file := Some (example_file\<lparr>originalName := ''MP4''\<rparr>)\<rparr>"
        "example_file\<lparr>originalName := ''MP4''\<rparr>"]
  by (simp add: example_video_input_def example_file_def string_eval)

section \<open>The environment and the examples\<close>

lemma fetch_fst [simp]: "fst (fetch req w) = network w (length (fetched w))"
  by (simp add: fetch_def)

lemma fetch_snd [simp]: "snd (fetch req w) = w\<lparr>fetched := fetched w @ [req]\<rparr>"
  by (simp add: fetch_def)

lemma fetch_eq: "fetch req w = (network w (length (fetched w)), w\<lparr>fetched := fetched w @ [req]\<rparr>)"
  by (simp add: fetch_def)

lemma generateSequentialFilename_env [simp]:
  "network (snd (generateSequentialFilename w)) = network w"
  "fetched (snd (generateSequentialFilename w)) = fetched w"
  "DECART_API_KEY (snd (generateSequentialFilename w)) = DECART_API_KEY w"
  by (simp_all add: generateSequentialFilename_def Date_now_def Math_random_toString36_def
      split_def)

lemma Date_now_env [simp]:
  "network (snd (Date_now w)) = network w"
  "fetched (snd (Date_now w)) = fetched w"
  "DECART_API_KEY (snd (Date_now w)) = DECART_API_KEY w"
  by (simp_all add: Date_now_def)

lemma valid_simps [simp]: "valid (reject m) = False" "valid accept = True"
  by (simp_all add: reject_def accept_def)

lemma validatePrompts_valid:
  "valid (validatePrompts i ps) \<Longrightarrow> \<forall>p\<in>set ps. trim p \<noteq> []"
  by (induction ps arbitrary: i) (auto split: if_splits)

lemma validateVideoInput_valid:
  assumes "valid (validateVideoInput v)"
  shows "\<exists>f. input_file v = Some f \<and> truthy (signedUrl f)"
    and "orientation v = ''landscape'' \<or> orientation v = ''portrait''"
proof -
  have all: "passes VideoReference v \<and> passes Orientation v"
    using assms by (simp add: validateVideoInput_passes del: passes.simps split: if_splits)
  then show "\<exists>f. input_file v = Some f \<and> truthy (signedUrl f)"
    by (simp only: passes_VideoReference)
  from all show "orientation v = ''landscape'' \<or> orientation v = ''portrait''"
    by simp
qed

lemma validateBatchInput_valid:
  assumes "valid (validateBatchInput input)"
  shows "\<exists>f c ps. videoFile input = Some f \<and> csvFile input = Some c \<and> prompts c = Some ps
           \<and> ps \<noteq> [] \<and> (\<forall>p\<in>set ps. trim p \<noteq> [])"
proof -
  let ?v = "\<lparr>modelCode = modelCode input, orientation = orientation input,
             enhance_prompt = None, prompt = ''dummy'', input_file = videoFile input\<rparr>"
  have v: "valid (validateVideoInput ?v)"
    using assms by (auto simp: validateBatchInput_def Let_def split: if_splits)
  from validateVideoInput_valid(1)[OF v] obtain f where f: "videoFile input = Some f"
    by auto
  from assms v obtain ps where ps: "Option.bind (csvFile input) prompts = Some ps"
    "ps \<noteq> []" "valid (validatePrompts 0 ps)"
    by (auto simp: validateBatchInput_def Let_def split: if_splits option.splits)
  from ps(1) obtain c where c: "csvFile input = Some c" "prompts c = Some ps"
    by (cases "csvFile input") auto
  show ?thesis
    using f c ps(2) validatePrompts_valid[OF ps(3)] by blast
qed

lemma example_batch_valid: "valid (validateBatchInput example_batch_input)"
  by (simp add: validateBatchInput_def validateVideoInput_passes example_batch_input_def
      example_csv_def example_file_def string_eval maxPromptLength_def)

lemma example_world_simps [simp]:
  "network (example_world net) = net"
  "fetched (example_world net) = []"
  "DECART_API_KEY (example_world net) = Some ''secret''"
  by (simp_all add: example_world_def)

lemma replies_simps [simp]:
  "replies [] n = Rejects (JsError ''TypeError'' ''fetch failed'')"
  "replies (r # rs) 0 = r"
  "replies (r # rs) (Suc n) = replies rs n"
  by (simp_all add: replies_def)

lemma reply_ok_simps [simp]:
  "reply_ok ok_reply" "\<not> reply_ok error_reply" "\<not> reply_ok (Rejects e)"
  by (simp_all add: reply_ok_def ok_reply_def error_reply_def ok_def)

section \<open>The batch pipeline\<close>

lemma item_prompt_item [simp]:
  "item_prompt (fst (processBatch_item videoBlob i p w)) = trim p"
  by (cases "network w (length (fetched w))")
     (simp_all add: processBatch_item_def fetch_eq Let_def split_def)

lemma item_env [simp]:
  "network (snd (processBatch_item videoBlob i p w)) = network w"
  "DECART_API_KEY (snd (processBatch_item videoBlob i p w)) = DECART_API_KEY w"
  by (cases "network w (length (fetched w))";
      simp add: processBatch_item_def fetch_eq Let_def split_def)+

lemma item_fetched:
  "trim p \<noteq> [] \<Longrightarrow>
   fetched (snd (processBatch_item videoBlob i p w)) =
     fetched w @ [Post endpoint (DECART_API_KEY w) videoBlob (trim p)]"
  by (cases "network w (length (fetched w))")
     (simp_all add: processBatch_item_def fetch_eq Let_def split_def)

lemma item_success:
  "trim p \<noteq> [] \<Longrightarrow>
   success (fst (processBatch_item videoBlob i p w)) =
     reply_ok (network w (length (fetched w)))"
  by (cases "network w (length (fetched w))")
     (simp_all add: processBatch_item_def fetch_eq Let_def split_def reply_ok_def)

lemma item_failure:
  "\<not> success (fst (processBatch_item videoBlob i p w)) \<Longrightarrow>
   item_error (fst (processBatch_item videoBlob i p w)) \<noteq> None"
  by (cases "network w (length (fetched w))")
     (simp_all add: processBatch_item_def fetch_eq Let_def split_def split: if_splits)

lemma item_non_2xx:
  "trim p \<noteq> [] \<Longrightarrow> network w (length (fetched w)) = Responds response \<Longrightarrow> \<not> ok response \<Longrightarrow>
   fst (processBatch_item videoBlob i p w) =
     \<lparr>item_prompt = trim p, success = False, videoUrl = None, item_outputFile = None,
      item_error = Some (''API request failed: '' @ show_nat (status response))\<rparr>"
  by (simp add: processBatch_item_def fetch_eq Let_def)

lemma loop_acc:
  "processBatch_loop videoBlob i ps rs w =
     (rs @ fst (processBatch_loop videoBlob i ps [] w),
      snd (processBatch_loop videoBlob i ps [] w))"
proof (induction ps arbitrary: i rs w)
  case Nil
  show ?case by simp
next
  case (Cons p ps)
  show ?case
    by (simp add: split_def Let_def Cons.IH[of _ "rs @ _"] Cons.IH[of _ "[_]"])
qed

lemma loop_Cons:
  "processBatch_loop videoBlob i (p # ps) [] w =
     (fst (processBatch_item videoBlob i p w)
        # fst (processBatch_loop videoBlob (Suc i) ps [] (snd (processBatch_item videoBlob i p w))),
      snd (processBatch_loop videoBlob (Suc i) ps [] (snd (processBatch_item videoBlob i p w))))"
  by (simp add: split_def Let_def loop_acc[of _ _ _ "[_]"])

declare processBatch_loop.simps(2) [simp del]

lemma loop_length: "length (fst (processBatch_loop videoBlob i ps [] w)) = length ps"
  by (induction ps arbitrary: i w) (simp_all add: loop_Cons)

lemma loop_prompts:
  "map item_prompt (fst (processBatch_loop videoBlob i ps [] w)) = map trim ps"
  by (induction ps arbitrary: i w) (simp_all add: loop_Cons)

lemma loop_env:
  "network (snd (processBatch_loop videoBlob i ps [] w)) = network w \<and>
   DECART_API_KEY (snd (processBatch_loop videoBlob i ps [] w)) = DECART_API_KEY w"
  by (induction ps arbitrary: i w) (simp_all add: loop_Cons)

lemma loop_fetched:
  "\<forall>p\<in>set ps. trim p \<noteq> [] \<Longrightarrow>
   fetched (snd (processBatch_loop videoBlob i ps [] w)) =
     fetched w @ map (\<lambda>p. Post endpoint (DECART_API_KEY w) videoBlob (trim p)) ps"
  by (induction ps arbitrary: i w)
     (simp_all add: loop_Cons item_fetched)

lemma loop_success:
  "\<forall>p\<in>set ps. trim p \<noteq> [] \<Longrightarrow> j < length ps \<Longrightarrow>
   success (fst (processBatch_loop videoBlob i ps [] w) ! j) =
     reply_ok (network w (length (fetched w) + j))"
proof (induction ps arbitrary: i w j)
  case Nil
  then show ?case by simp
next
  case (Cons p ps)
  show ?case
  proof (cases j)
    case 0
    then show ?thesis using Cons.prems by (simp add: loop_Cons item_success)
  next
    case (Suc j')
    then show ?thesis using Cons.prems Cons.IH[of j' "Suc i" "snd (processBatch_item videoBlob i p w)"]
      by (simp add: loop_Cons item_fetched)
  qed
qed

lemma loop_failure:
  "j < length ps \<Longrightarrow> \<not> success (fst (processBatch_loop videoBlob i ps [] w) ! j) \<Longrightarrow>
   item_error (fst (processBatch_loop videoBlob i ps [] w) ! j) \<noteq> None"
proof (induction ps arbitrary: i w j)
  case Nil
  then show ?case by simp
next
  case (Cons p ps)
  show ?case
  proof (cases j)
    case 0
    then show ?thesis using Cons.prems
      by (simp add: loop_Cons item_failure)
  next
    case (Suc j')
    then show ?thesis using Cons.prems Cons.IH[of j' "Suc i" "snd (processBatch_item videoBlob i p w)"]
      by (simp add: loop_Cons)
  qed
qed

lemma one_failure_count:
  assumes "k < length rs" and "\<forall>i<length rs. success (rs ! i) = (i \<noteq> k)"
  shows "length (filter success rs) = length rs - 1"
proof -
  have "{i. i < length rs \<and> success (rs ! i)} = {..<length rs} - {k}"
    using assms by auto
  then have "length (filter success rs) = card ({..<length rs} - {k})"
    by (simp add: length_filter_conv_card)
  then show ?thesis using assms(1) by simp
qed

lemma filter_not_length:
  "length (filter (\<lambda>r. \<not> P r) rs) = length rs - length (filter P rs)"
  using sum_length_filter_compl[of P rs] by simp

lemma processBatch_run:
  assumes "videoFile input = Some f"
    and "network w (length (fetched w)) = Responds videoResponse"
    and "body videoResponse = Inr videoBlob"
    and "csvFile input = Some c"
    and "prompts c = Some ps"
  shows "processBatch input w =
     (Inr (Succeeded (BatchResults
        \<lparr>totalProcessed =
           length (fst (processBatch_loop videoBlob 0 ps [] (w\<lparr>fetched := fetched w @ [Get (signedUrl f)]\<rparr>))),
         successCount =
           length (filter success (fst (processBatch_loop videoBlob 0 ps [] (w\<lparr>fetched := fetched w @ [Get (signedUrl f)]\<rparr>)))),
         failureCount =
           length (fst (processBatch_loop videoBlob 0 ps [] (w\<lparr>fetched := fetched w @ [Get (signedUrl f)]\<rparr>)))
           - length (filter success (fst (processBatch_loop videoBlob 0 ps [] (w\<lparr>fetched := fetched w @ [Get (signedUrl f)]\<rparr>)))),
         results = fst (processBatch_loop videoBlob 0 ps [] (w\<lparr>fetched := fetched w @ [Get (signedUrl f)]\<rparr>))\<rparr>)),
      snd (processBatch_loop videoBlob 0 ps [] (w\<lparr>fetched := fetched w @ [Get (signedUrl f)]\<rparr>)))"
  using assms by (simp add: processBatch_def fetch_eq Let_def split_def)

text \<open>
  C1, as the claim states it, fails: for a validated batch request whose shared video
  cannot be fetched, the pipeline rejects after the one call of \<open>fetch\<close> for the video; it
  attempts no prompt and returns no BatchOutput.
\<close>

theorem processBatch_video_fetch_fails:
  "valid (validateBatchInput example_batch_input) \<and>
   processBatch example_batch_input (example_world (replies [])) =
     (Inl (JsError ''TypeError'' ''fetch failed''),
      (example_world (replies []))
        \<lparr>fetched := [Get (Some ''https://storage.example/clip.mov'')]\<rparr>)"
  by (simp add: example_batch_valid)
     (simp add: processBatch_def fetch_eq example_batch_input_def example_file_def)

text \<open>
  C1, amended: for every validated batch request with N prompts whose shared video has
  been fetched (the fetch is answered and its body read), the batch pipeline posts every
  prompt, trimmed, in input order, whatever the replies to the earlier ones, and returns
  a BatchOutput with totalProcessed = N and one entry per prompt in input order, the
  entry successful exactly when its call is answered with a 2xx status; successCount
  and failureCount count the successful and the failed entries. In particular, if only
  item k fails, then successCount = N - 1, failureCount = 1, and entry k carries the
  failure while every other entry is successful.
\<close>

theorem processBatch_attempts_every_prompt:
  assumes "valid (validateBatchInput input)"
    and "network w (length (fetched w)) = Responds videoResponse"
    and "body videoResponse = Inr videoBlob"
  shows "\<exists>f c ps out w'.
     videoFile input = Some f \<and> csvFile input = Some c \<and> prompts c = Some ps \<and>
     processBatch input w = (Inr (Succeeded (BatchResults out)), w') \<and>
     fetched w' =
       fetched w @ Get (signedUrl f)
         # map (\<lambda>p. Post endpoint (DECART_API_KEY w) videoBlob (trim p)) ps \<and>
     totalProcessed out = length ps \<and>
     length (results out) = length ps \<and>
     map item_prompt (results out) = map trim ps \<and>
     (\<forall>i<length ps.
        success (results out ! i) = reply_ok (network w (length (fetched w) + 1 + i))) \<and>
     successCount out = length (filter success (results out)) \<and>
     failureCount out = length (filter (\<lambda>r. \<not> success r) (results out)) \<and>
     (\<forall>k<length ps.
        (\<forall>i<length ps. reply_ok (network w (length (fetched w) + 1 + i)) = (i \<noteq> k)) \<longrightarrow>
        successCount out = length ps - 1 \<and> failureCount out = 1 \<and>
        \<not> success (results out ! k) \<and> item_error (results out ! k) \<noteq> None \<and>
        (\<forall>i<length ps. i \<noteq> k \<longrightarrow> success (results out ! i)))"
proof -
  from validateBatchInput_valid[OF assms(1)] obtain f c ps where
    f: "videoFile input = Some f" and c: "csvFile input = Some c" "prompts c = Some ps"
    and ps: "ps \<noteq> []" "\<forall>p\<in>set ps. trim p \<noteq> []"
    by blast
  define w1 where "w1 = w\<lparr>fetched := fetched w @ [Get (signedUrl f)]\<rparr>"
  define rs where "rs = fst (processBatch_loop videoBlob 0 ps [] w1)"
  define w' where "w' = snd (processBatch_loop videoBlob 0 ps [] w1)"
  define out where "out = \<lparr>totalProcessed = length rs, successCount = length (filter success rs),
     failureCount = length rs - length (filter success rs), results = rs\<rparr>"
  have run: "processBatch input w = (Inr (Succeeded (BatchResults out)), w')"
    unfolding out_def rs_def w'_def w1_def
    by (rule processBatch_run[OF f assms(2,3) c])
  have len: "length rs = length ps"
    by (simp add: rs_def loop_length)
  have w1: "network w1 = network w" "DECART_API_KEY w1 = DECART_API_KEY w"
    "length (fetched w1) = length (fetched w) + 1"
    "fetched w1 = fetched w @ [Get (signedUrl f)]"
    by (simp_all add: w1_def)
  have fetched: "fetched w' = fetched w @ Get (signedUrl f)
         # map (\<lambda>p. Post endpoint (DECART_API_KEY w) videoBlob (trim p)) ps"
    unfolding w'_def by (simp add: loop_fetched[OF ps(2)] w1)
  have prompts: "map item_prompt rs = map trim ps"
    by (simp add: rs_def loop_prompts)
  have succ: "\<forall>i<length ps. success (rs ! i) = reply_ok (network w (length (fetched w) + 1 + i))"
    unfolding rs_def by (simp add: loop_success[OF ps(2)] w1)
  have fail: "\<forall>i<length ps. \<not> success (rs ! i) \<longrightarrow> item_error (rs ! i) \<noteq> None"
    unfolding rs_def using loop_failure by blast
  have one: "\<forall>k<length ps.
        (\<forall>i<length ps. reply_ok (network w (length (fetched w) + 1 + i)) = (i \<noteq> k)) \<longrightarrow>
        length (filter success rs) = length ps - 1 \<and> length rs - length (filter success rs) = 1 \<and>
        \<not> success (rs ! k) \<and> item_error (rs ! k) \<noteq> None \<and>
        (\<forall>i<length ps. i \<noteq> k \<longrightarrow> success (rs ! i))"
  proof (intro allI impI)
    fix k
    assume k: "k < length ps"
      and only: "\<forall>i<length ps. reply_ok (network w (length (fetched w) + 1 + i)) = (i \<noteq> k)"
    from succ only have flags: "\<forall>i<length rs. success (rs ! i) = (i \<noteq> k)"
      by (simp add: len)
    from one_failure_count[OF _ flags] k len
    have cnt: "length (filter success rs) = length ps - 1" by simp
    moreover have "length rs - length (filter success rs) = 1"
      using cnt len k by simp
    moreover have "\<not> success (rs ! k)" using flags k len by simp
    moreover from this fail k have "item_error (rs ! k) \<noteq> None" by blast
    moreover have "\<forall>i<length ps. i \<noteq> k \<longrightarrow> success (rs ! i)" using flags len by simp
    ultimately show "length (filter success rs) = length ps - 1 \<and> length rs - length (filter success rs) = 1 \<and>
        \<not> success (rs ! k) \<and> item_error (rs ! k) \<noteq> None \<and>
        (\<forall>i<length ps. i \<noteq> k \<longrightarrow> success (rs ! i))"
      by blast
  qed
  have outs: "totalProcessed out = length rs" "results out = rs"
    "successCount out = length (filter success rs)"
    "failureCount out = length rs - length (filter success rs)"
    by (simp_all add: out_def)
  show ?thesis
    apply (rule exI[of _ f], rule exI[of _ c], rule exI[of _ ps], rule exI[of _ out],
        rule exI[of _ w'])
    unfolding outs filter_not_length
    using f c run fetched len prompts succ one by blast
qed

text \<open>Three prompts, the second answered with status 500.\<close>

theorem processBatch_attempts_every_prompt_witness:
  "\<exists>out w'.
     processBatch example_batch_input
       (example_world (replies [ok_reply, ok_reply, error_reply, ok_reply])) =
       (Inr (Succeeded (BatchResults out)), w') \<and>
     fetched w' =
       [Get (Some ''https://storage.example/clip.mov''),
        Post endpoint (Some ''secret'') ''video-bytes'' ''make it snow'',
        Post endpoint (Some ''secret'') ''video-bytes'' ''add rain'',
        Post endpoint (Some ''secret'') ''video-bytes'' ''at night''] \<and>
     totalProcessed out = 3 \<and> successCount out = 2 \<and> failureCount out = 1 \<and>
     map item_prompt (results out) = [''make it snow'', ''add rain'', ''at night''] \<and>
     success (results out ! 0) \<and> \<not> success (results out ! 1) \<and> success (results out ! 2)"
proof -
  let ?w = "example_world (replies [ok_reply, ok_reply, error_reply, ok_reply])"
  have n: "network ?w (length (fetched ?w)) = Responds \<lparr>status = 200, body = Inr ''video-bytes''\<rparr>"
    by (simp add: ok_reply_def)
  have b: "body \<lparr>status = 200, body = Inr ''video-bytes''\<rparr> = Inr ''video-bytes''"
    by simp
  from processBatch_attempts_every_prompt[OF example_batch_valid n b]
  obtain f c ps out w' where
    f: "videoFile example_batch_input = Some f" and c: "csvFile example_batch_input = Some c"
    and ps: "prompts c = Some ps"
    and run: "processBatch example_batch_input ?w = (Inr (Succeeded (BatchResults out)), w')"
    and fetched: "fetched w' = fetched ?w @ Get (signedUrl f)
         # map (\<lambda>p. Post endpoint (DECART_API_KEY ?w) ''video-bytes'' (trim p)) ps"
    and total: "totalProcessed out = length ps"
    and prompts: "map item_prompt (results out) = map trim ps"
    and one: "\<forall>k<length ps.
        (\<forall>i<length ps. reply_ok (network ?w (length (fetched ?w) + 1 + i)) = (i \<noteq> k)) \<longrightarrow>
        successCount out = length ps - 1 \<and> failureCount out = 1 \<and>
        \<not> success (results out ! k) \<and> item_error (results out ! k) \<noteq> None \<and>
        (\<forall>i<length ps. i \<noteq> k \<longrightarrow> success (results out ! i))"
    by blast
  have f': "f = example_file" using f by (simp add: example_batch_input_def)
  have ps': "ps = [''make it snow'', '' add rain '', ''at night'']"
    using c ps by (auto simp: example_batch_input_def example_csv_def)
  have only: "\<forall>i<length ps. reply_ok (network ?w (length (fetched ?w) + 1 + i)) = (i \<noteq> 1)"
    by (simp add: ps' All_less_Suc eval_nat_numeral)
  have "1 < length ps"
    by (simp add: ps')
  with one only
  have cons: "successCount out = length ps - 1" "failureCount out = 1"
    "\<not> success (results out ! 1)" "\<forall>i<length ps. i \<noteq> 1 \<longrightarrow> success (results out ! i)"
    by blast+
  from cons(4) have s0: "success (results out ! 0)" and s2: "success (results out ! 2)"
    by (simp_all add: ps')
  show ?thesis
    apply (rule exI[of _ out], rule exI[of _ w'])
    using run fetched total prompts cons(1,2,3) s0 s2
    by (simp add: ps' f' example_file_def string_eval)
qed

lemma processBatch_returns:
  assumes "processBatch input w = (Inr r, w')"
  shows "\<exists>f videoResponse videoBlob c ps.
     videoFile input = Some f \<and> network w (length (fetched w)) = Responds videoResponse \<and>
     body videoResponse = Inr videoBlob \<and> csvFile input = Some c \<and> prompts c = Some ps"
  using assms
  by (auto simp: processBatch_def fetch_eq Let_def split_def
      split: option.splits fetch_reply.splits sum.splits)

lemma processBatch_output:
  assumes ret: "processBatch input w = (Inr (Succeeded out'), w')"
  shows "\<exists>out c ps.
         out' = BatchResults out \<and> csvFile input = Some c \<and> prompts c = Some ps \<and>
         successCount out + failureCount out = totalProcessed out \<and>
         totalProcessed out = length ps \<and> length (results out) = length ps \<and>
         map item_prompt (results out) = map trim ps"
proof -
  from processBatch_returns[OF ret] obtain f videoResponse videoBlob c ps where
    h: "videoFile input = Some f" "network w (length (fetched w)) = Responds videoResponse"
      "body videoResponse = Inr videoBlob" "csvFile input = Some c" "prompts c = Some ps"
    by blast
  define rs where "rs = fst (processBatch_loop videoBlob 0 ps [] (w\<lparr>fetched := fetched w @ [Get (signedUrl f)]\<rparr>))"
  have out': "out' = BatchResults \<lparr>totalProcessed = length rs, successCount = length (filter success rs),
     failureCount = length rs - length (filter success rs), results = rs\<rparr>"
    using ret unfolding processBatch_run[OF h] rs_def by simp
  have "length (filter success rs) + (length rs - length (filter success rs)) = length rs"
    by (simp add: length_filter_le)
  moreover have "length rs = length ps" "map item_prompt rs = map trim ps"
    by (simp_all add: rs_def loop_length loop_prompts)
  ultimately show ?thesis
    using out' h(4,5) by simp
qed

lemma all_fail_count:
  assumes "\<forall>i<length rs. \<not> success (rs ! i)"
  shows "filter success rs = []"
  using assms by (auto simp: filter_empty_conv in_set_conv_nth)

text \<open>
  C2, as the claim states it, fails: for a validated batch request the poll reports
  \<open>failed\<close>, with no BatchOutput, when the body of the shared video cannot be read.
\<close>

theorem processBatch_video_body_fails:
  "valid (validateBatchInput example_batch_input) \<and>
   fst (result ''decart_batch_1000_k3x9q2m'' (Some (BatchVideoProcessing example_batch_input))
          (example_world (replies [Responds \<lparr>status = 200,
             body = Inl (JsError ''TypeError'' ''terminated'')\<rparr>])))
   = Failed ''Video processing failed: terminated''"
  by (simp add: example_batch_valid)
     (simp add: result_def processBatch_def fetch_eq example_batch_input_def
        example_file_def on_error_def)

text \<open>
  C2, amended: for every validated batch request whose shared video has been fetched,
  the batch pipeline, and the poll that runs it, return the terminal outcome
  \<open>succeeded\<close> wrapping the full BatchOutput (one entry per processed prompt), whatever
  the replies to the items; the failure count is the number of failed entries, an
  entry is failed exactly when its call was not answered with a 2xx status, and when
  every item failed the outcome is still \<open>succeeded\<close>, with successCount = 0 and
  failureCount = totalProcessed.
\<close>

theorem processBatch_reports_succeeded:
  assumes "valid (validateBatchInput input)"
    and "network w (length (fetched w)) = Responds videoResponse"
    and "body videoResponse = Inr videoBlob"
    and "startsWith jobId ''decart_''"
  shows "\<exists>out w'.
     processBatch input w = (Inr (Succeeded (BatchResults out)), w') \<and>
     result jobId (Some (BatchVideoProcessing input)) w = (Succeeded (BatchResults out), w') \<and>
     length (results out) = totalProcessed out \<and>
     successCount out = length (filter success (results out)) \<and>
     failureCount out = length (filter (\<lambda>r. \<not> success r) (results out)) \<and>
     (\<forall>i<totalProcessed out.
        success (results out ! i) = reply_ok (network w (length (fetched w) + 1 + i))) \<and>
     ((\<forall>i<totalProcessed out. \<not> reply_ok (network w (length (fetched w) + 1 + i))) \<longrightarrow>
        successCount out = 0 \<and> failureCount out = totalProcessed out)"
proof -
  from validateBatchInput_valid[OF assms(1)] obtain f c ps where
    f: "videoFile input = Some f" and c: "csvFile input = Some c" "prompts c = Some ps"
    and ps: "\<forall>p\<in>set ps. trim p \<noteq> []"
    by blast
  define w1 where "w1 = w\<lparr>fetched := fetched w @ [Get (signedUrl f)]\<rparr>"
  define rs where "rs = fst (processBatch_loop videoBlob 0 ps [] w1)"
  define w' where "w' = snd (processBatch_loop videoBlob 0 ps [] w1)"
  define out where "out = \<lparr>totalProcessed = length rs, successCount = length (filter success rs),
     failureCount = length rs - length (filter success rs), results = rs\<rparr>"
  have run: "processBatch input w = (Inr (Succeeded (BatchResults out)), w')"
    unfolding out_def rs_def w'_def w1_def
    by (rule processBatch_run[OF f assms(2,3) c])
  have poll: "result jobId (Some (BatchVideoProcessing input)) w = (Succeeded (BatchResults out), w')"
    using assms(4) by (simp add: result_def run)
  have len: "length rs = length ps"
    by (simp add: rs_def loop_length)
  have succ: "\<forall>i<length rs. success (rs ! i) = reply_ok (network w (length (fetched w) + 1 + i))"
    unfolding len unfolding rs_def by (simp add: loop_success[OF ps] w1_def)
  have none: "(\<forall>i<length rs. \<not> reply_ok (network w (length (fetched w) + 1 + i))) \<longrightarrow>
      length (filter success rs) = 0 \<and> length rs - length (filter success rs) = length rs"
    using succ all_fail_count[of rs] by simp
  have outs: "totalProcessed out = length rs" "results out = rs"
    "successCount out = length (filter success rs)"
    "failureCount out = length rs - length (filter success rs)"
    by (simp_all add: out_def)
  show ?thesis
    apply (rule exI[of _ out], rule exI[of _ w'])
    unfolding outs filter_not_length
    using run poll succ none by blast
qed

text \<open>
  A batch of three prompts of which none succeeds: two are answered with status 500,
  and the call for the third is rejected.
\<close>

theorem processBatch_reports_succeeded_witness:
  "\<exists>out w'.
     result ''decart_batch_1000_k3x9q2m'' (Some (BatchVideoProcessing example_batch_input))
       (example_world (replies [ok_reply, error_reply, error_reply])) =
       (Succeeded (BatchResults out), w') \<and>
     length (results out) = 3 \<and> totalProcessed out = 3 \<and> successCount out = 0 \<and>
     failureCount out = 3"
proof -
  let ?w = "example_world (replies [ok_reply, error_reply, error_reply])"
  have n: "network ?w (length (fetched ?w)) = Responds \<lparr>status = 200, body = Inr ''video-bytes''\<rparr>"
    by (simp add: ok_reply_def)
  have b: "body \<lparr>status = 200, body = Inr ''video-bytes''\<rparr> = Inr ''video-bytes''"
    by simp
  have j: "startsWith ''decart_batch_1000_k3x9q2m'' ''decart_''"
    by simp
  from processBatch_reports_succeeded[OF example_batch_valid n b j]
  obtain out w' where
    run: "processBatch example_batch_input ?w = (Inr (Succeeded (BatchResults out)), w')"
    and poll: "result ''decart_batch_1000_k3x9q2m'' (Some (BatchVideoProcessing example_batch_input)) ?w
       = (Succeeded (BatchResults out), w')"
    and len: "length (results out) = totalProcessed out"
    and none: "(\<forall>i<totalProcessed out. \<not> reply_ok (network ?w (length (fetched ?w) + 1 + i))) \<longrightarrow>
        successCount out = 0 \<and> failureCount out = totalProcessed out"
    by blast
  from processBatch_output[OF run]
  have total: "totalProcessed out = 3"
    by (auto simp: example_batch_input_def example_csv_def)
  have "\<forall>i<totalProcessed out. \<not> reply_ok (network ?w (length (fetched ?w) + 1 + i))"
    by (simp add: total All_less_Suc eval_nat_numeral)
  with none have "successCount out = 0" "failureCount out = totalProcessed out"
    by blast+
  then show ?thesis
    using poll len total by auto
qed

text \<open>
  C8: whenever the batch pipeline returns an output, it is a BatchOutput with
  successCount + failureCount = totalProcessed = the number of input prompts, with one
  entry per prompt, and the prompt echoed by each entry is the corresponding input
  prompt after trimming; and the pipeline does return one whenever the shared video
  has been fetched and the request carries a prompt array.
\<close>

theorem processBatch_output_invariant:
  "(processBatch input w = (Inr (Succeeded out'), w') \<longrightarrow>
      (\<exists>out c ps.
         out' = BatchResults out \<and> csvFile input = Some c \<and> prompts c = Some ps \<and>
         successCount out + failureCount out = totalProcessed out \<and>
         totalProcessed out = length ps \<and> length (results out) = length ps \<and>
         map item_prompt (results out) = map trim ps)) \<and>
   (videoFile input = Some f \<and> network w (length (fetched w)) = Responds videoResponse \<and>
    body videoResponse = Inr videoBlob \<and> csvFile input = Some c' \<and> prompts c' = Some ps'
    \<longrightarrow> (\<exists>out w''. processBatch input w = (Inr (Succeeded (BatchResults out)), w'')))"
  using processBatch_output[of input w out' w']
    processBatch_run[of input f w videoResponse videoBlob c' ps']
  by blast

text \<open>
  Three prompts, the second written with white space around it, the third timing out:
  the entries echo the trimmed prompts, and the counts add up to three.
\<close>

theorem processBatch_output_invariant_witness:
  "\<exists>out w'.
     processBatch example_batch_input
       (example_world (replies [ok_reply, ok_reply, ok_reply,
          Rejects (JsError ''TimeoutError'' ''The operation was aborted due to timeout'')])) =
       (Inr (Succeeded (BatchResults out)), w') \<and>
     successCount out + failureCount out = 3 \<and> totalProcessed out = 3 \<and>
     map item_prompt (results out) = [''make it snow'', ''add rain'', ''at night'']"
proof -
  let ?w = "example_world (replies [ok_reply, ok_reply, ok_reply,
          Rejects (JsError ''TimeoutError'' ''The operation was aborted due to timeout'')])"
  note inv = processBatch_output_invariant[where input = example_batch_input and w = ?w
      and f = example_file and videoResponse = "\<lparr>status = 200, body = Inr ''video-bytes''\<rparr>"
      and videoBlob = "''video-bytes''" and c' = example_csv
      and ps' = "[''make it snow'', '' add rain '', ''at night'']"]
  have "\<exists>out w''. processBatch example_batch_input ?w = (Inr (Succeeded (BatchResults out)), w'')"
    using inv[THEN conjunct2]
    by (simp add: example_batch_input_def example_csv_def ok_reply_def)
  then obtain out w'' where
    run: "processBatch example_batch_input ?w = (Inr (Succeeded (BatchResults out)), w'')"
    by blast
  from inv[where out' = "BatchResults out" and w' = w'', THEN conjunct1] run
  have "successCount out + failureCount out = totalProcessed out \<and>
        totalProcessed out = 3 \<and>
        map item_prompt (results out) = [''make it snow'', ''add rain'', ''at night'']"
    by (auto simp: example_batch_input_def example_csv_def string_eval)
  with run show ?thesis
    by auto
qed

section \<open>The single-video pipeline and the poll\<close>

lemma getOutputDimensions_own:
  "getOutputDimensions ''landscape'' = \<lparr>width = Some 1280, height = Some 704\<rparr>"
  "getOutputDimensions ''portrait'' = \<lparr>width = Some 704, height = Some 1280\<rparr>"
  by (simp_all add: getOutputDimensions_def orientations_def)

lemma getOutputDimensions_fallback:
  assumes "orientation' \<noteq> ''landscape''" and "orientation' \<noteq> ''portrait''"
    and "orientation' \<notin> set object_prototype_names"
  shows "getOutputDimensions orientation' = \<lparr>width = Some 1280, height = Some 704\<rparr>"
  using assms by (simp add: getOutputDimensions_def orientations_def)

lemma processSingleVideo_returns:
  assumes "processSingleVideo input w = (Inr r, w')"
  shows "\<exists>vo. r = Succeeded (Video vo) \<and> format vo = ''mp4'' \<and>
     out_width vo = width (getOutputDimensions (orientation input)) \<and>
     out_height vo = height (getOutputDimensions (orientation input)) \<and>
     out_prompt vo = prompt input \<and> out_orientation vo = orientation input"
  using assms
  by (auto simp: processSingleVideo_def fetch_eq Let_def split_def
      split: option.splits fetch_reply.splits sum.splits if_splits)

lemma processSingleVideo_succeeds:
  assumes "input_file input = Some f"
    and "network w (length (fetched w)) = Responds videoResponse"
    and "body videoResponse = Inr videoBlob"
    and "network w (Suc (length (fetched w))) = Responds response"
    and "ok response"
    and "body response = Inr processedVideoBlob"
  shows "\<exists>vo w'. processSingleVideo input w = (Inr (Succeeded (Video vo)), w')"
  using assms by (simp add: processSingleVideo_def fetch_eq Let_def split_def)

lemma processSingleVideo_non_2xx:
  assumes "input_file input = Some f"
    and "network w (length (fetched w)) = Responds videoResponse"
    and "body videoResponse = Inr videoBlob"
    and "network w (Suc (length (fetched w))) = Responds response"
    and "\<not> ok response"
    and "body response = Inr errorText"
  shows "fst (processSingleVideo input w) =
     Inl (new_Error (''Decart API error ('' @ show_nat (status response) @ ''): ''
                     @ errorText))"
  using assms by (simp add: processSingleVideo_def fetch_eq Let_def split_def)

lemma on_error_Failed: "on_error e \<noteq> Succeeded out"
  by (cases e) (simp_all add: on_error_def)

lemma result_single_Succeeded:
  assumes "result jobId (Some (VideoToVideo input)) w = (Succeeded out, w')"
  shows "processSingleVideo input w = (Inr (Succeeded out), w')"
proof -
  obtain r w1 where p: "processSingleVideo input w = (r, w1)"
    by (cases "processSingleVideo input w")
  show ?thesis
    using assms p on_error_Failed
    by (cases r) (auto simp: result_def split: if_splits)
qed

lemma result_single:
  "startsWith jobId ''decart_'' \<Longrightarrow>
   result jobId (Some (VideoToVideo input)) w =
     (case processSingleVideo input w of
        (Inr r, w1) \<Rightarrow> (r, w1)
      | (Inl e, w1) \<Rightarrow> (on_error e, w1))"
  by (simp add: result_def)

lemma example_video_valid: "valid (validateVideoInput example_video_input)"
  by (simp add: validateVideoInput_passes example_video_input_def example_file_def
      string_eval)

lemma example_world_more [simp]:
  "clock (example_world net) = (\<lambda>n. 1000 + n)"
  "clock_reads (example_world net) = 0"
  "random36 (example_world net) = (\<lambda>n. ''0.k3x9q2m7a1'')"
  "random_reads (example_world net) = 0"
  by (simp_all add: example_world_def)

lemma loop_non_2xx:
  "\<forall>p\<in>set ps. trim p \<noteq> [] \<Longrightarrow> j < length ps \<Longrightarrow>
   network w (length (fetched w) + j) = Responds response \<Longrightarrow> \<not> ok response \<Longrightarrow>
   fst (processBatch_loop videoBlob i ps [] w) ! j =
     \<lparr>item_prompt = trim (ps ! j), success = False, videoUrl = None, item_outputFile = None,
      item_error = Some (''API request failed: '' @ show_nat (status response))\<rparr>"
proof (induction ps arbitrary: i w j)
  case Nil
  then show ?case by simp
next
  case (Cons p ps)
  show ?case
  proof (cases j)
    case 0
    then show ?thesis
      using Cons.prems by (simp add: loop_Cons item_non_2xx)
  next
    case (Suc j')
    then show ?thesis
      using Cons.prems Cons.IH[of j' "snd (processBatch_item videoBlob i p w)" "Suc i"]
      by (simp add: loop_Cons item_fetched)
  qed
qed

text \<open>
  C6: validation accepts no orientation other than landscape and portrait; and for a
  validated single request, every succeeded outcome of the poll is a video output of
  format mp4 that echoes the prompt and the orientation of the request, 1280 by 704
  for landscape and 704 by 1280 for portrait; the poll does return a succeeded outcome
  when the video is fetched and the upstream call is answered with a 2xx status and a
  readable body.
\<close>

theorem single_output_dimensions:
  assumes "valid (validateVideoInput input)"
  shows "(orientation input = ''landscape'' \<or> orientation input = ''portrait'') \<and>
    (result jobId (Some (VideoToVideo input)) w = (Succeeded out, w') \<longrightarrow>
       (\<exists>vo. out = Video vo \<and> format vo = ''mp4'' \<and> out_prompt vo = prompt input \<and>
          out_orientation vo = orientation input \<and>
          out_width vo = Some (if orientation input = ''landscape'' then 1280 else 704) \<and>
          out_height vo = Some (if orientation input = ''landscape'' then 704 else 1280))) \<and>
    (startsWith jobId ''decart_'' \<and>
     network w (length (fetched w)) = Responds videoResponse \<and>
     body videoResponse = Inr videoBlob \<and>
     network w (Suc (length (fetched w))) = Responds response \<and> ok response \<and>
     body response = Inr processedVideoBlob \<longrightarrow>
       (\<exists>vo w''. result jobId (Some (VideoToVideo input)) w = (Succeeded (Video vo), w'')))"
proof (intro conjI impI)
  show o: "orientation input = ''landscape'' \<or> orientation input = ''portrait''"
    by (rule validateVideoInput_valid(2)[OF assms])
  {
    assume "result jobId (Some (VideoToVideo input)) w = (Succeeded out, w')"
    then have "processSingleVideo input w = (Inr (Succeeded out), w')"
      by (rule result_single_Succeeded)
    from processSingleVideo_returns[OF this] o
    show "\<exists>vo. out = Video vo \<and> format vo = ''mp4'' \<and> out_prompt vo = prompt input \<and>
          out_orientation vo = orientation input \<and>
          out_width vo = Some (if orientation input = ''landscape'' then 1280 else 704) \<and>
          out_height vo = Some (if orientation input = ''landscape'' then 704 else 1280)"
      by (auto simp: getOutputDimensions_own)
  }
  {
    assume h: "startsWith jobId ''decart_'' \<and>
     network w (length (fetched w)) = Responds videoResponse \<and>
     body videoResponse = Inr videoBlob \<and>
     network w (Suc (length (fetched w))) = Responds response \<and> ok response \<and>
     body response = Inr processedVideoBlob"
    from validateVideoInput_valid(1)[OF assms] obtain f where f: "input_file input = Some f"
      by blast
    from processSingleVideo_succeeds[OF f, of w videoResponse videoBlob response processedVideoBlob] h
    obtain vo w'' where "processSingleVideo input w = (Inr (Succeeded (Video vo)), w'')"
      by blast
    then show "\<exists>vo w''. result jobId (Some (VideoToVideo input)) w = (Succeeded (Video vo), w'')"
      using h by (simp add: result_single)
  }
qed

text \<open>
  The scenario of the specification: portrait, \<open>clip.mov\<close> of 40 MB, the prompt
  ``turn the person into a robot''; the poll returns 704 by 1280, mp4.
\<close>

theorem single_output_dimensions_witness:
  "\<exists>vo w'.
     result ''decart_single_1000_k3x9q2m'' (Some (VideoToVideo example_video_input))
       (example_world (replies [ok_reply, ok_reply])) = (Succeeded (Video vo), w') \<and>
     format vo = ''mp4'' \<and> out_width vo = Some 704 \<and> out_height vo = Some 1280 \<and>
     out_prompt vo = ''turn the person into a robot'' \<and> out_orientation vo = ''portrait''"
proof -
  let ?w = "example_world (replies [ok_reply, ok_reply])"
  note inst = single_output_dimensions[OF example_video_valid,
      where jobId = "''decart_single_1000_k3x9q2m''" and w = ?w
      and videoResponse = "\<lparr>status = 200, body = Inr ''video-bytes''\<rparr>"
      and videoBlob = "''video-bytes''"
      and response = "\<lparr>status = 200, body = Inr ''video-bytes''\<rparr>"
      and processedVideoBlob = "''video-bytes''"]
  have "\<exists>vo w''. result ''decart_single_1000_k3x9q2m'' (Some (VideoToVideo example_video_input)) ?w
      = (Succeeded (Video vo), w'')"
    using inst[THEN conjunct2, THEN conjunct2]
    by (simp add: ok_reply_def ok_def)
  then obtain vo w'' where
    run: "result ''decart_single_1000_k3x9q2m'' (Some (VideoToVideo example_video_input)) ?w
      = (Succeeded (Video vo), w'')"
    by blast
  from inst[where out = "Video vo" and w' = w'', THEN conjunct2, THEN conjunct1] run
  have "format vo = ''mp4'' \<and> out_width vo = Some 704 \<and> out_height vo = Some 1280 \<and>
     out_prompt vo = ''turn the person into a robot'' \<and> out_orientation vo = ''portrait''"
    by (auto simp: example_video_input_def)
  with run show ?thesis
    by blast
qed

text \<open>
  C7: a poll with a job handle that does not start with \<open>decart_\<close>, or without the
  request, returns the outcome \<open>running\<close>; it rejects nothing and leaves the world as
  it was, so it makes no call.
\<close>

theorem result_running_without_handle_or_context:
  "\<not> startsWith jobId ''decart_'' \<or> input = None \<Longrightarrow> result jobId input w = (Running, w)"
  by (auto simp: result_def)

text \<open>A handle of another provider with a request, and a handle of this one without.\<close>

theorem result_running_without_handle_or_context_witness:
  "result ''job_42'' (Some (VideoToVideo example_video_input))
     (example_world (replies [ok_reply, ok_reply]))
   = (Running, example_world (replies [ok_reply, ok_reply])) \<and>
   result ''decart_single_1000_k3x9q2m'' None (example_world (replies [ok_reply, ok_reply]))
   = (Running, example_world (replies [ok_reply, ok_reply]))"
  using result_running_without_handle_or_context
    [of "''job_42''" "Some (VideoToVideo example_video_input)"
        "example_world (replies [ok_reply, ok_reply])"]
    result_running_without_handle_or_context
    [of "''decart_single_1000_k3x9q2m''" None "example_world (replies [ok_reply, ok_reply])"]
  by simp

text \<open>
  C9: the poll does not validate the request again, and an orientation that is neither
  landscape nor portrait is meant to fall back to the landscape dimensions. The code
  misses the names every object inherits: for the orientation \<open>constructor\<close> the
  lookup \<open>orientations[orientation]\<close> finds the inherited function, which is truthy,
  so the fallback is not taken, and the poll returns a succeeded output whose width
  and height are \<open>undefined\<close>.
\<close>

theorem poll_orientation_constructor:
  "fst (result ''decart_single_1000_k3x9q2m''
          (Some (VideoToVideo (example_video_input\<lparr>orientation := ''constructor''\<rparr>)))
          (example_world (replies [ok_reply, ok_reply])))
   = Succeeded (Video
       \<lparr>url = ''/static/videos/processed_1001.mp4'', format = ''mp4'',
        out_width = None, out_height = None, provider = ''decart-video'',
        model = ''vid2vid'', out_prompt = ''turn the person into a robot'',
        out_orientation = ''constructor'', outputFile = ''output_1000_k3x.mp4''\<rparr>)"
  by (simp add: result_def processSingleVideo_def fetch_eq Let_def split_def
      example_video_input_def example_file_def ok_reply_def ok_def
      getOutputDimensions_def orientations_def object_prototype_names_def
      generateSequentialFilename_def Date_now_def Math_random_toString36_def
      substring_def show_nat.simps)

text \<open>The output of that poll is not the 1280 by 704 one.\<close>

theorem poll_orientation_constructor_witness:
  "fst (result ''decart_single_1000_k3x9q2m''
          (Some (VideoToVideo (example_video_input\<lparr>orientation := ''constructor''\<rparr>)))
          (example_world (replies [ok_reply, ok_reply])))
   \<noteq> Succeeded (Video
       \<lparr>url = ''/static/videos/processed_1001.mp4'', format = ''mp4'',
        out_width = Some 1280, out_height = Some 704, provider = ''decart-video'',
        model = ''vid2vid'', out_prompt = ''turn the person into a robot'',
        out_orientation = ''constructor'', outputFile = ''output_1000_k3x.mp4''\<rparr>)"
  using poll_orientation_constructor
  by simp

text \<open>
  Everywhere else the fallback works: for an orientation that is neither landscape nor
  portrait, which validation rejects, and that is not the name of a property inherited
  from \<open>Object.prototype\<close>, the pipelines compute the landscape dimensions, and the
  poll of a single request whose calls succeed returns a succeeded output of 1280 by
  704 that echoes the orientation as it was given.
\<close>

theorem poll_orientation_fallback:
  assumes "orientation input \<noteq> ''landscape''"
    and "orientation input \<noteq> ''portrait''"
    and "orientation input \<notin> set object_prototype_names"
    and "startsWith jobId ''decart_''"
    and "input_file input = Some f"
    and "network w (length (fetched w)) = Responds videoResponse"
    and "body videoResponse = Inr videoBlob"
    and "network w (Suc (length (fetched w))) = Responds response"
    and "ok response"
    and "body response = Inr processedVideoBlob"
  shows "\<not> valid (validateVideoInput input) \<and>
     getOutputDimensions (orientation input) = \<lparr>width = Some 1280, height = Some 704\<rparr> \<and>
     (\<exists>vo w'. result jobId (Some (VideoToVideo input)) w = (Succeeded (Video vo), w') \<and>
        out_width vo = Some 1280 \<and> out_height vo = Some 704 \<and>
        out_orientation vo = orientation input)"
proof (intro conjI)
  show "\<not> valid (validateVideoInput input)"
    using validateVideoInput_valid(2)[of input] assms(1,2) by blast
  show d: "getOutputDimensions (orientation input) = \<lparr>width = Some 1280, height = Some 704\<rparr>"
    by (rule getOutputDimensions_fallback[OF assms(1,2,3)])
  from processSingleVideo_succeeds[OF assms(5,6,7,8,9,10)] obtain vo w' where
    run: "processSingleVideo input w = (Inr (Succeeded (Video vo)), w')"
    by blast
  from processSingleVideo_returns[OF run] d
  have "out_width vo = Some 1280 \<and> out_height vo = Some 704 \<and>
        out_orientation vo = orientation input"
    by auto
  moreover have "result jobId (Some (VideoToVideo input)) w = (Succeeded (Video vo), w')"
    using assms(4) run by (simp add: result_single)
  ultimately show "\<exists>vo w'. result jobId (Some (VideoToVideo input)) w = (Succeeded (Video vo), w') \<and>
        out_width vo = Some 1280 \<and> out_height vo = Some 704 \<and>
        out_orientation vo = orientation input"
    by blast
qed

text \<open>The orientation \<open>diagonal\<close>.\<close>

theorem poll_orientation_fallback_witness:
  "\<not> valid (validateVideoInput (example_video_input\<lparr>orientation := ''diagonal''\<rparr>)) \<and>
   (\<exists>vo w'.
      result ''decart_single_1000_k3x9q2m''
        (Some (VideoToVideo (example_video_input\<lparr>orientation := ''diagonal''\<rparr>)))
        (example_world (replies [ok_reply, ok_reply])) = (Succeeded (Video vo), w') \<and>
      out_width vo = Some 1280 \<and> out_height vo = Some 704 \<and>
      out_orientation vo = ''diagonal'')"
proof -
  have "orientation (example_video_input\<lparr>orientation := ''diagonal''\<rparr>) \<noteq> ''landscape''"
    "orientation (example_video_input\<lparr>orientation := ''diagonal''\<rparr>) \<noteq> ''portrait''"
    "orientation (example_video_input\<lparr>orientation := ''diagonal''\<rparr>)
       \<notin> set object_prototype_names"
    "startsWith ''decart_single_1000_k3x9q2m'' ''decart_''"
    "input_file (example_video_input\<lparr>orientation := ''diagonal''\<rparr>) = Some example_file"
    "network (example_world (replies [ok_reply, ok_reply]))
       (length (fetched (example_world (replies [ok_reply, ok_reply]))))
     = Responds \<lparr>status = 200, body = Inr ''video-bytes''\<rparr>"
    "body \<lparr>status = 200, body = Inr ''video-bytes''\<rparr> = Inr ''video-bytes''"
    "network (example_world (replies [ok_reply, ok_reply]))
       (Suc (length (fetched (example_world (replies [ok_reply, ok_reply])))))
     = Responds \<lparr>status = 200, body = Inr ''video-bytes''\<rparr>"
    "ok \<lparr>status = 200, body = Inr ''video-bytes''\<rparr>"
    by (simp_all add: example_video_input_def object_prototype_names_def ok_reply_def ok_def)
  from poll_orientation_fallback[OF this(1-8) this(9) this(7)]
  show ?thesis
    by simp
qed




text \<open>
  C3: a response with a status outside 200..299 is to be reported as a failure whose
  message holds the status code and the body text. The single-video pipeline reads
  the body with \<open>response.text()\<close> and puts both in its error; the loop of the batch
  pipeline does not read the body. An item answered with status 500 and the body
  \<open>boom\<close> is recorded with the error ``API request failed: 500'', which does not hold
  the body.
\<close>

theorem batch_item_error_without_body:
  "fst (result ''decart_batch_1000_k3x9q2m'' (Some (BatchVideoProcessing example_batch_input))
          (example_world (replies [ok_reply, error_reply, error_reply, error_reply])))
   = Succeeded (BatchResults
       \<lparr>totalProcessed = 3, successCount = 0, failureCount = 3,
        results =
          [\<lparr>item_prompt = ''make it snow'', success = False, videoUrl = None,
            item_outputFile = None, item_error = Some ''API request failed: 500''\<rparr>,
           \<lparr>item_prompt = ''add rain'', success = False, videoUrl = None,
            item_outputFile = None, item_error = Some ''API request failed: 500''\<rparr>,
           \<lparr>item_prompt = ''at night'', success = False, videoUrl = None,
            item_outputFile = None, item_error = Some ''API request failed: 500''\<rparr>]\<rparr>) \<and>
   error_reply = Responds \<lparr>status = 500, body = Inr ''boom''\<rparr> \<and>
   \<not> includes_str ''API request failed: 500'' ''boom''"
  by (simp add: result_def processBatch_def fetch_eq Let_def split_def
      processBatch_loop.simps processBatch_item_def
      example_batch_input_def example_csv_def example_file_def ok_reply_def error_reply_def
      ok_def string_eval show_nat.simps)

text \<open>
  The entries of that batch are not the ones that would carry the error of the
  single-video pipeline, ``Decart API error (500): boom''.
\<close>

theorem batch_item_error_without_body_witness:
  "fst (result ''decart_batch_1000_k3x9q2m'' (Some (BatchVideoProcessing example_batch_input))
          (example_world (replies [ok_reply, error_reply, error_reply, error_reply])))
   \<noteq> Succeeded (BatchResults
       \<lparr>totalProcessed = 3, successCount = 0, failureCount = 3,
        results =
          [\<lparr>item_prompt = ''make it snow'', success = False, videoUrl = None,
            item_outputFile = None, item_error = Some ''Decart API error (500): boom''\<rparr>,
           \<lparr>item_prompt = ''add rain'', success = False, videoUrl = None,
            item_outputFile = None, item_error = Some ''Decart API error (500): boom''\<rparr>,
           \<lparr>item_prompt = ''at night'', success = False, videoUrl = None,
            item_outputFile = None, item_error = Some ''Decart API error (500): boom''\<rparr>]\<rparr>)"
  using batch_item_error_without_body
  by simp

text \<open>
  What the code does with a response whose status is outside 200..299, in both
  pipelines. In the single-video pipeline, once the body of the response is read, the
  error thrown is ``Decart API error (status): body'', and the poll returns the failed
  outcome that the \<open>catch\<close> block of \<open>result\<close> makes of it. In a validated batch whose
  video has been fetched, the entry of the item is failed with the error ``API request
  failed: status''.
\<close>

theorem non_2xx_reported_as_failure:
  assumes "\<not> ok response"
  shows "(startsWith jobId ''decart_'' \<and> input_file input = Some f \<and>
      network w (length (fetched w)) = Responds videoResponse \<and>
      body videoResponse = Inr videoBlob \<and>
      network w (Suc (length (fetched w))) = Responds response \<and>
      body response = Inr errorText \<longrightarrow>
        fst (result jobId (Some (VideoToVideo input)) w) =
          Failed
            (if includes_str
                  (''Decart API error ('' @ show_nat (status response) @ ''): '' @ errorText)
                  ''timeout''
             then ''Video processing is taking longer than expected. Please try again.''
             else ''Video processing failed: Decart API error (''
                  @ show_nat (status response) @ ''): '' @ errorText)) \<and>
    (valid (validateBatchInput batch) \<and>
      network w (length (fetched w)) = Responds videoResponse \<and>
      body videoResponse = Inr videoBlob \<and>
      Option.bind (csvFile batch) prompts = Some ps \<and> i < length ps \<and>
      network w (length (fetched w) + 1 + i) = Responds response \<longrightarrow>
        (\<exists>out w'.
           processBatch batch w = (Inr (Succeeded (BatchResults out)), w') \<and>
           results out ! i =
             \<lparr>item_prompt = trim (ps ! i), success = False, videoUrl = None,
              item_outputFile = None,
              item_error = Some (''API request failed: '' @ show_nat (status response))\<rparr>))"
proof (intro conjI impI)
  assume h: "startsWith jobId ''decart_'' \<and> input_file input = Some f \<and>
      network w (length (fetched w)) = Responds videoResponse \<and>
      body videoResponse = Inr videoBlob \<and>
      network w (Suc (length (fetched w))) = Responds response \<and>
      body response = Inr errorText"
  then have "fst (processSingleVideo input w) =
     Inl (new_Error (''Decart API error ('' @ show_nat (status response) @ ''): ''
                     @ errorText))"
    using processSingleVideo_non_2xx[of input f w videoResponse videoBlob response errorText]
      assms by blast
  then show "fst (result jobId (Some (VideoToVideo input)) w) =
          Failed
            (if includes_str
                  (''Decart API error ('' @ show_nat (status response) @ ''): '' @ errorText)
                  ''timeout''
             then ''Video processing is taking longer than expected. Please try again.''
             else ''Video processing failed: Decart API error (''
                  @ show_nat (status response) @ ''): '' @ errorText)"
    using h by (cases "processSingleVideo input w")
      (simp add: result_single on_error_def new_Error_def)
next
  assume h: "valid (validateBatchInput batch) \<and>
      network w (length (fetched w)) = Responds videoResponse \<and>
      body videoResponse = Inr videoBlob \<and>
      Option.bind (csvFile batch) prompts = Some ps \<and> i < length ps \<and>
      network w (length (fetched w) + 1 + i) = Responds response"
  from validateBatchInput_valid[of batch] h obtain f c where
    f: "videoFile batch = Some f" and c: "csvFile batch = Some c" "prompts c = Some ps"
    and ps: "\<forall>p\<in>set ps. trim p \<noteq> []"
    by auto
  define w1 where "w1 = w\<lparr>fetched := fetched w @ [Get (signedUrl f)]\<rparr>"
  have n: "network w1 (length (fetched w1) + i) = Responds response"
    using h by (simp add: w1_def)
  have i: "i < length ps" using h by blast
  have run: "processBatch batch w =
     (Inr (Succeeded (BatchResults
        \<lparr>totalProcessed = length (fst (processBatch_loop videoBlob 0 ps [] w1)),
         successCount = length (filter success (fst (processBatch_loop videoBlob 0 ps [] w1))),
         failureCount = length (fst (processBatch_loop videoBlob 0 ps [] w1))
           - length (filter success (fst (processBatch_loop videoBlob 0 ps [] w1))),
         results = fst (processBatch_loop videoBlob 0 ps [] w1)\<rparr>)),
      snd (processBatch_loop videoBlob 0 ps [] w1))"
    unfolding w1_def using processBatch_run[OF f _ _ c, of w videoResponse videoBlob] h
    by blast
  show "\<exists>out w'.
           processBatch batch w = (Inr (Succeeded (BatchResults out)), w') \<and>
           results out ! i =
             \<lparr>item_prompt = trim (ps ! i), success = False, videoUrl = None,
              item_outputFile = None,
              item_error = Some (''API request failed: '' @ show_nat (status response))\<rparr>"
    unfolding run using loop_non_2xx[OF ps i n assms, of videoBlob 0] by simp
qed

text \<open>
  A single request answered with 500 and \<open>boom\<close>; one answered with 504 and a body that
  mentions a timeout; and a batch whose second item is answered with 500.
\<close>

theorem non_2xx_reported_as_failure_witness:
  "fst (result ''decart_single_1000_k3x9q2m'' (Some (VideoToVideo example_video_input))
          (example_world (replies [ok_reply, error_reply])))
   = Failed ''Video processing failed: Decart API error (500): boom'' \<and>
   fst (result ''decart_single_1000_k3x9q2m'' (Some (VideoToVideo example_video_input))
          (example_world (replies [ok_reply,
             Responds \<lparr>status = 504, body = Inr ''upstream request timeout''\<rparr>])))
   = Failed ''Video processing is taking longer than expected. Please try again.'' \<and>
   (\<exists>out w'.
      processBatch example_batch_input
        (example_world (replies [ok_reply, ok_reply, error_reply, ok_reply]))
      = (Inr (Succeeded (BatchResults out)), w') \<and>
      results out ! 1 =
        \<lparr>item_prompt = ''add rain'', success = False, videoUrl = None,
         item_outputFile = None, item_error = Some ''API request failed: 500''\<rparr>)"
proof -
  have nok: "\<not> ok \<lparr>status = 500, body = Inr ''boom''\<rparr>"
    "\<not> ok \<lparr>status = 504, body = Inr ''upstream request timeout''\<rparr>"
    by (simp_all add: ok_def)
  have a: "fst (result ''decart_single_1000_k3x9q2m'' (Some (VideoToVideo example_video_input))
          (example_world (replies [ok_reply, error_reply])))
   = Failed ''Video processing failed: Decart API error (500): boom''"
    using non_2xx_reported_as_failure[
        where response = "\<lparr>status = 500, body = Inr ''boom''\<rparr>"
        and jobId = "''decart_single_1000_k3x9q2m''" and input = example_video_input
        and f = example_file and w = "example_world (replies [ok_reply, error_reply])"
        and videoResponse = "\<lparr>status = 200, body = Inr ''video-bytes''\<rparr>"
        and videoBlob = "''video-bytes''" and errorText = "''boom''",
        OF nok(1), THEN conjunct1]
    by (simp add: example_video_input_def ok_reply_def error_reply_def show_nat.simps)
  have b: "fst (result ''decart_single_1000_k3x9q2m'' (Some (VideoToVideo example_video_input))
          (example_world (replies [ok_reply,
             Responds \<lparr>status = 504, body = Inr ''upstream request timeout''\<rparr>])))
   = Failed ''Video processing is taking longer than expected. Please try again.''"
    using non_2xx_reported_as_failure[
        where response = "\<lparr>status = 504, body = Inr ''upstream request timeout''\<rparr>"
        and jobId = "''decart_single_1000_k3x9q2m''" and input = example_video_input
        and f = example_file
        and w = "example_world (replies [ok_reply,
             Responds \<lparr>status = 504, body = Inr ''upstream request timeout''\<rparr>])"
        and videoResponse = "\<lparr>status = 200, body = Inr ''video-bytes''\<rparr>"
        and videoBlob = "''video-bytes''" and errorText = "''upstream request timeout''",
        OF nok(2), THEN conjunct1]
    by (simp add: example_video_input_def ok_reply_def show_nat.simps)
  have c: "\<exists>out w'.
      processBatch example_batch_input
        (example_world (replies [ok_reply, ok_reply, error_reply, ok_reply]))
      = (Inr (Succeeded (BatchResults out)), w') \<and>
      results out ! 1 =
        \<lparr>item_prompt = ''add rain'', success = False, videoUrl = None,
         item_outputFile = None, item_error = Some ''API request failed: 500''\<rparr>"
    using non_2xx_reported_as_failure[
        where response = "\<lparr>status = 500, body = Inr ''boom''\<rparr>"
        and batch = example_batch_input
        and w = "example_world (replies [ok_reply, ok_reply, error_reply, ok_reply])"
        and videoResponse = "\<lparr>status = 200, body = Inr ''video-bytes''\<rparr>"
        and videoBlob = "''video-bytes''" and i = 1
        and ps = "[''make it snow'', '' add rain '', ''at night'']",
        OF nok(1), THEN conjunct2]
      example_batch_valid
    by (simp add: example_batch_input_def example_csv_def ok_reply_def error_reply_def
        show_nat.simps string_eval)
  from a b c show ?thesis
    by blast
qed

end
